theory Spec2Isabelle
  imports Main "HOL-Library.Word"
begin

section \<open>The slug generator\<close>

text \<open>
  \<^verbatim>\<open>generateSlug\<close> is \<^verbatim>\<open>toLowerCase\<close> followed by five regular-expression
  replacements. A JavaScript string is a sequence of UTF-16 code units, and the regular
  expressions of the source (no \<^verbatim>\<open>u\<close> flag) match code unit by code unit; a code unit is
  modelled by its number (below 65536 in JavaScript; the definitions read any natural
  number).
\<close>

type_synonym code_unit = nat

type_synonym js_string = "code_unit list"

text \<open>The code units of an ASCII literal.\<close>

definition units :: "string \<Rightarrow> js_string" where
  "units s = map of_char s"

definition hyphen :: code_unit where
  "hyphen = 45"

definition is_upper :: "code_unit \<Rightarrow> bool" where
  "is_upper c = (65 \<le> c \<and> c \<le> 90)"

definition is_lower_word :: "code_unit \<Rightarrow> bool" where
  "is_lower_word c = ((97 \<le> c \<and> c \<le> 122) \<or> (48 \<le> c \<and> c \<le> 57) \<or> c = 95)"

text \<open>The class \<^verbatim>\<open>\w\<close>: \<^verbatim>\<open>[A-Za-z0-9_]\<close>, in JavaScript as here.\<close>

definition is_word :: "code_unit \<Rightarrow> bool" where
  "is_word c = (is_lower_word c \<or> is_upper c)"

text \<open>
  The class \<^verbatim>\<open>\s\<close> of ECMAScript, white space and line terminators: U+0009 to U+000D,
  U+0020, U+00A0, U+1680, U+2000 to U+200A, U+2028, U+2029, U+202F, U+205F, U+3000 and
  U+FEFF.
\<close>

definition is_space :: "code_unit \<Rightarrow> bool" where
  "is_space c =
     ((9 \<le> c \<and> c \<le> 13) \<or> c = 32 \<or> c = 160 \<or> c = 5760 \<or> (8192 \<le> c \<and> c \<le> 8202) \<or>
      c = 8232 \<or> c = 8233 \<or> c = 8239 \<or> c = 8287 \<or> c = 12288 \<or> c = 65279)"

text \<open>
  \<^verbatim>\<open>.replace(/\s+/g, '-')\<close> and \<^verbatim>\<open>.replace(/--+/g, '-')\<close>: every maximal run of
  characters of the class becomes one hyphen. (The second expression asks for a run of
  two hyphens or more; a run of one hyphen is a hyphen before and after.)
\<close>

fun replace_runs :: "(code_unit \<Rightarrow> bool) \<Rightarrow> js_string \<Rightarrow> js_string" where
  "replace_runs p [] = []"
| "replace_runs p [c] = (if p c then [hyphen] else [c])"
| "replace_runs p (c # d # cs) =
     (if p c then (if p d then replace_runs p (d # cs) else hyphen # replace_runs p (d # cs))
      else c # replace_runs p (d # cs))"

text \<open>\<^verbatim>\<open>.replace(/[^\w-]+/g, '')\<close>: only word characters and hyphens are kept.\<close>

definition remove_non_word :: "js_string \<Rightarrow> js_string" where
  "remove_non_word s = filter (\<lambda>c. is_word c \<or> c = hyphen) s"

text \<open>\<^verbatim>\<open>.replace(/^-+/, '')\<close> and \<^verbatim>\<open>.replace(/-+$/, '')\<close>.\<close>

definition trim_start :: "js_string \<Rightarrow> js_string" where
  "trim_start s = dropWhile (\<lambda>c. c = hyphen) s"

definition trim_end :: "js_string \<Rightarrow> js_string" where
  "trim_end s = rev (dropWhile (\<lambda>c. c = hyphen) (rev s))"

text \<open>
  \<^verbatim>\<open>String.prototype.toLowerCase\<close>, a built-in of the language. On a string of ASCII
  code units it turns \<^verbatim>\<open>A\<close>..\<^verbatim>\<open>Z\<close> into \<^verbatim>\<open>a\<close>..\<^verbatim>\<open>z\<close> and leaves every other code
  unit as it is. On a string that holds another code unit it maps by the Unicode case
  tables: the length may change (U+0130 becomes \<^verbatim>\<open>i\<close> followed by U+0307), an ASCII
  letter may come from another character (U+212A, the Kelvin sign, becomes \<^verbatim>\<open>k\<close>),
  and the result may depend on the context (the final sigma). The tables are not
  written out here: the lowering of such strings is the parameter \<open>unicode_lower\<close>, of
  \<open>toLowerCase\<close>, of \<open>generateSlug\<close> and of every service function that builds a slug.
\<close>

definition is_ascii :: "js_string \<Rightarrow> bool" where
  "is_ascii s = (\<forall>c \<in> set s. c < 128)"

definition lower_unit :: "code_unit \<Rightarrow> code_unit" where
  "lower_unit c = (if is_upper c then c + 32 else c)"

definition toLowerCase :: "(js_string \<Rightarrow> js_string) \<Rightarrow> js_string \<Rightarrow> js_string" where
  "toLowerCase unicode_lower s = (if is_ascii s then map lower_unit s else unicode_lower s)"

definition generateSlug :: "(js_string \<Rightarrow> js_string) \<Rightarrow> js_string \<Rightarrow> js_string" where
  "generateSlug unicode_lower name =
     trim_end (trim_start (replace_runs (\<lambda>c. c = hyphen)
       (remove_non_word (replace_runs is_space (toLowerCase unicode_lower name)))))"

text \<open>Two hyphens next to each other somewhere in a string.\<close>

fun adjacent_hyphens :: "js_string \<Rightarrow> bool" where
  "adjacent_hyphens (c # d # cs) = ((c = hyphen \<and> d = hyphen) \<or> adjacent_hyphens (d # cs))"
| "adjacent_hyphens [c] = False"
| "adjacent_hyphens [] = False"

section \<open>Values, rows and payloads\<close>

text \<open>
  A JavaScript property that may be left out, be \<^verbatim>\<open>null\<close> or hold a value. The
  source tells the three apart (\<^verbatim>\<open>!== undefined\<close>, \<^verbatim>\<open>=== null\<close>,
  \<^verbatim>\<open>'sort_order' in\<close>).
\<close>

datatype 'a opt = Undefined | Null | Val 'a

text \<open>\<^verbatim>\<open>x ?? d\<close>\<close>

definition nullish :: "'a opt \<Rightarrow> 'a \<Rightarrow> 'a" where
  "nullish x d = (case x of Val v \<Rightarrow> v | _ \<Rightarrow> d)"

text \<open>
  A thrown or returned error: an instance of \<^verbatim>\<open>Error\<close>, made by \<^verbatim>\<open>new Error(...)\<close>,
  or the error object of a store response. Both carry a message.
\<close>

datatype js_error = Error string | PostgrestError string

text \<open>
  The store may answer with either kind (\<open>fails\<close> below chooses), so nothing here depends
  on whether the client library makes its errors instances of \<^verbatim>\<open>Error\<close>.
\<close>

fun message :: "js_error \<Rightarrow> string" where
  "message (Error m) = m"
| "message (PostgrestError m) = m"

fun instanceof_Error :: "js_error \<Rightarrow> bool" where
  "instanceof_Error (Error m) = True"
| "instanceof_Error (PostgrestError m) = False"

text \<open>
  Modelled from the spec: the row types of the five tables. The source takes them from
  the generated \<^verbatim>\<open>Database\<close> type (\<^verbatim>\<open>lib/types/database.types\<close>), which is not among the
  source files; the records below hold the columns the service reads or writes, as the
  data model of the spec names them, with the nullability the source handles
  (\<^verbatim>\<open>available ?? true\<close>, \<^verbatim>\<open>img.path &&\<close>, \<^verbatim>\<open>sort_order ?? 0\<close>,
  \<^verbatim>\<open>!currentCar?.category\<close>). The payloads of features and specifications are opaque.
  An identifier is a string, as in the source. The name and the slug are sequences of
  code units, as \<open>generateSlug\<close> reads them; text the service only stores, compares or
  concatenates is a \<^typ>\<open>string\<close>. The sort order of an image is an integer column:
  a 32-bit signed integer, which JavaScript reads, and subtracts, exactly.
\<close>

type_synonym uuid = string

record CarBase =
  c_id :: uuid
  c_slug :: js_string
  c_name :: js_string
  c_category :: "string option"
  c_description :: "string option"
  c_short_description :: "string option"
  c_available :: "bool option"
  c_featured :: "bool option"
  c_hidden :: "bool option"
  c_created_by :: "string option"
  c_created_at :: nat

record PricingInsertData =
  base_price :: "int option"

record CarPricing =
  p_id :: uuid
  p_car_id :: uuid
  p_base_price :: "int option"

record ImageInsertData =
  url :: string
  path :: "string option"
  is_primary :: "bool option"
  sort_order :: "32 word opt"

record CarImage = ImageInsertData +
  i_id :: uuid
  i_car_id :: uuid

type_synonym FeatureInsertData = string

record CarFeature =
  f_id :: uuid
  f_car_id :: uuid
  f_data :: FeatureInsertData

type_synonym SpecificationInsertData = string

record CarSpecification =
  sp_id :: uuid
  sp_car_id :: uuid
  sp_data :: SpecificationInsertData

text \<open>
  \<^verbatim>\<open>AppCar\<close>: the root record (\<^verbatim>\<open>...typedCarData\<close>) with its related data.
\<close>

record AppCar =
  a_base :: CarBase
  a_pricing :: "CarPricing option"
  a_images :: "CarImage list"
  a_features :: "CarFeature list"
  a_specifications :: "CarSpecification list"

text \<open>
  \<^verbatim>\<open>AppCarUpsert\<close>. The source tests \<^verbatim>\<open>carData.pricing\<close> before it writes it, so the
  pricing may be missing.
\<close>

record AppCarUpsert =
  name :: js_string
  category :: string
  description :: "string opt"
  short_description :: "string opt"
  available :: "bool opt"
  featured :: "bool opt"
  hidden :: "bool opt"
  pricing :: "PricingInsertData option"
  images :: "ImageInsertData list"
  features :: "FeatureInsertData list"
  specifications :: "SpecificationInsertData list"

text \<open>\<^verbatim>\<open>Partial<AppCarUpsert>\<close>: every property may be left out.\<close>

record PartialAppCarUpsert =
  u_name :: "js_string option"
  u_category :: "string option"
  u_description :: "string opt"
  u_short_description :: "string opt"
  u_available :: "bool opt"
  u_featured :: "bool opt"
  u_hidden :: "bool opt"
  u_pricing :: "PricingInsertData option"
  u_images :: "ImageInsertData list option"
  u_features :: "FeatureInsertData list option"
  u_specifications :: "SpecificationInsertData list option"

section \<open>The store\<close>

text \<open>
  The Supabase client is a collaborator of the service: five tables, one bucket of stored
  images. It is modelled as a state the service functions pass along:
  \<^item> the rows of each table, in the order in which they were inserted, and the paths of the
    objects in the bucket;
  \<^item> \<open>console\<close>, the argument lists of the \<^verbatim>\<open>console.error\<close> calls, oldest first;
  \<^item> \<open>trace\<close>, the calls made to the store, oldest first;
  \<^item> counters for the identifiers and creation times the store gives to new rows.

  A call to the store resolves to a response \<^verbatim>\<open>{ data, error }\<close>; the source reads the
  \<^verbatim>\<open>error\<close> property after every call it checks, and the model follows it: a failure of
  the store is a returned \<^verbatim>\<open>error\<close>, never a rejected promise. Which calls fail is a
  parameter of every service function, \<open>fails\<close>, from the call to the error it returns.
  Within one service function no two call sites make the same \<open>call\<close>, so \<open>fails\<close> can fail
  any of them on its own. A call that fails changes no table and no stored object.
\<close>

datatype table = Cars | CarPricingT | CarImages | CarFeatures | CarSpecifications

datatype call =
    Select table string
  | Insert table
  | Update table
  | Upsert table
  | Delete table
  | StorageRemove "string list"

text \<open>An argument of \<^verbatim>\<open>console.error\<close>: a string, or an error value (possibly \<^verbatim>\<open>null\<close>).\<close>

datatype log_arg = Str string | Err "js_error option"

record store =
  cars :: "CarBase list"
  car_pricing :: "CarPricing list"
  car_images :: "CarImage list"
  car_features :: "CarFeature list"
  car_specifications :: "CarSpecification list"
  pricing_one_to_one :: bool
  sort_order_column :: bool
  bucket :: "string list"
  console :: "log_arg list list"
  trace :: "call list"
  next_id :: nat
  clock :: nat

type_synonym faults = "call \<Rightarrow> js_error option"

definition request :: "faults \<Rightarrow> call \<Rightarrow> store \<Rightarrow> js_error option \<times> store" where
  "request fails c s = (fails c, s\<lparr>trace := trace s @ [c]\<rparr>)"

definition console_error :: "log_arg list \<Rightarrow> store \<Rightarrow> store" where
  "console_error args s = s\<lparr>console := console s @ [args]\<rparr>"

text \<open>The identifier of a new row: the counter of the store in decimal digits.\<close>

fun digits :: "nat \<Rightarrow> string" where
  "digits n = (if n < 10 then [char_of (48 + n)] else digits (n div 10) @ [char_of (48 + n mod 10)])"

declare digits.simps [simp del]

definition uuid_of :: "nat \<Rightarrow> uuid" where
  "uuid_of n = digits n"

text \<open>A nullable string as a condition: \<^verbatim>\<open>null\<close> and the empty string are falsy.\<close>

definition truthy :: "string option \<Rightarrow> bool" where
  "truthy p = (case p of None \<Rightarrow> False | Some v \<Rightarrow> v \<noteq> [])"

text \<open>
  What a select with joined child collections returns for one car. The pricing arrives
  as an array, or as a single object when the relation is one-to-one.
\<close>

datatype pricing_join = PricingArray "CarPricing list" | PricingObject "CarPricing option"

record joined_car =
  j_car :: CarBase
  j_pricing :: pricing_join
  j_images :: "CarImage list"
  j_features :: "CarFeature list"
  j_specifications :: "CarSpecification list"

text \<open>
  The rows of one select carry the same keys. Whether the images table has the column
  \<^verbatim>\<open>sort_order\<close> is a property of the store: when it has, the key is in every image row
  a select returns (\<^verbatim>\<open>null\<close> where the row holds no value); when it has not, the key is
  in none.
\<close>

definition selected :: "store \<Rightarrow> CarImage \<Rightarrow> CarImage" where
  "selected s i =
     i\<lparr>sort_order :=
         (if sort_order_column s
          then (case sort_order i of Undefined \<Rightarrow> Null | Null \<Rightarrow> Null | Val v \<Rightarrow> Val v)
          else Undefined)\<rparr>"

definition join :: "store \<Rightarrow> CarBase \<Rightarrow> joined_car" where
  "join s r =
     (let ps = filter (\<lambda>p. p_car_id p = c_id r) (car_pricing s)
      in \<lparr>j_car = r,
          j_pricing = (if pricing_one_to_one s
                       then PricingObject (case ps of [] \<Rightarrow> None | p # _ \<Rightarrow> Some p)
                       else PricingArray ps),
          j_images = map (selected s) (filter (\<lambda>i. i_car_id i = c_id r) (car_images s)),
          j_features = filter (\<lambda>f. f_car_id f = c_id r) (car_features s),
          j_specifications = filter (\<lambda>x. sp_car_id x = c_id r) (car_specifications s)\<rparr>)"

text \<open>
  \<^verbatim>\<open>supabase.from("cars").select(cols)\<close> followed by filters, orderings and a limit,
  here the function \<open>query\<close> on the rows of the table.
\<close>

definition select_cars ::
  "faults \<Rightarrow> string \<Rightarrow> (CarBase list \<Rightarrow> CarBase list) \<Rightarrow> store \<Rightarrow> (js_error + joined_car list) \<times> store" where
  "select_cars fails cols query s =
     (case request fails (Select Cars cols) s of
        (Some e, s1) \<Rightarrow> (Inl e, s1)
      | (None, s1) \<Rightarrow> (Inr (map (join s1) (query (cars s1))), s1))"

text \<open>\<^verbatim>\<open>.maybeSingle()\<close>: no row is \<^verbatim>\<open>null\<close>, more than one row is an error.\<close>

definition maybeSingle :: "(js_error + 'a list) \<Rightarrow> js_error + 'a option" where
  "maybeSingle r =
     (case r of
        Inl e \<Rightarrow> Inl e
      | Inr [] \<Rightarrow> Inr None
      | Inr [x] \<Rightarrow> Inr (Some x)
      | Inr _ \<Rightarrow> Inl (PostgrestError ''JSON object requested, multiple (or no) rows returned''))"

text \<open>\<^verbatim>\<open>.order(col, { ascending: false })\<close>: descending, rows with equal keys keep their order.\<close>

definition order_desc :: "('a \<Rightarrow> nat) \<Rightarrow> 'a list \<Rightarrow> 'a list" where
  "order_desc f xs = rev (sort_key f (rev xs))"

text \<open>The rank of a nullable boolean column: false, then true, then \<^verbatim>\<open>NULL\<close>.\<close>

definition bool_rank :: "bool option \<Rightarrow> nat" where
  "bool_rank b = (case b of Some False \<Rightarrow> 0 | Some True \<Rightarrow> 1 | None \<Rightarrow> 2)"

section \<open>The car service\<close>

text \<open>
  \<^verbatim>\<open>if (error instanceof Error) throw new Error(handleSupabaseError(error));
  throw new Error(fallback)\<close>, the tail of every \<^verbatim>\<open>catch\<close> block. The translator
  \<^verbatim>\<open>handleSupabaseError\<close> is a parameter.
\<close>

definition rethrow :: "(js_error \<Rightarrow> string) \<Rightarrow> string \<Rightarrow> js_error \<Rightarrow> js_error" where
  "rethrow handleSupabaseError fallback error =
     (if instanceof_Error error then Error (handleSupabaseError error) else Error fallback)"

text \<open>\<^verbatim>\<open>(a, b) => (a.sort_order ?? 0) - (b.sort_order ?? 0)\<close> as a sort key.\<close>

definition sort_order_key :: "CarImage \<Rightarrow> int" where
  "sort_order_key i = (case sort_order i of Val v \<Rightarrow> sint v | _ \<Rightarrow> 0)"

text \<open>
  \<^verbatim>\<open>if (images.length > 0 && 'sort_order' in images[0]) images.sort(...)\<close>
\<close>

definition sortImages :: "CarImage list \<Rightarrow> CarImage list" where
  "sortImages imgs =
     (case imgs of
        [] \<Rightarrow> imgs
      | first # _ \<Rightarrow> if sort_order first \<noteq> Undefined then sort_key sort_order_key imgs else imgs)"

text \<open>
  \<^verbatim>\<open>Array.isArray(pricing) ? pricing[0] || null : pricing || null\<close>
\<close>

definition firstPricing :: "pricing_join \<Rightarrow> CarPricing option" where
  "firstPricing p =
     (case p of
        PricingArray ps \<Rightarrow> (case ps of [] \<Rightarrow> None | x # _ \<Rightarrow> Some x)
      | PricingObject po \<Rightarrow> po)"

text \<open>The \<^verbatim>\<open>assembledCar\<close> object, with the images sorted.\<close>

definition assembleCar :: "joined_car \<Rightarrow> AppCar" where
  "assembleCar typedCarData =
     \<lparr>a_base = (j_car typedCarData)
         \<lparr>c_available := Some (case c_available (j_car typedCarData) of None \<Rightarrow> True | Some b \<Rightarrow> b),
          c_featured := Some (case c_featured (j_car typedCarData) of None \<Rightarrow> False | Some b \<Rightarrow> b),
          c_hidden := Some (case c_hidden (j_car typedCarData) of None \<Rightarrow> False | Some b \<Rightarrow> b)\<rparr>,
      a_pricing = firstPricing (j_pricing typedCarData),
      a_images = sortImages (j_images typedCarData),
      a_features = j_features typedCarData,
      a_specifications = j_specifications typedCarData\<rparr>"

definition cols_full :: string where
  "cols_full = ''*, pricing:car_pricing(*), images:car_images(*), features:car_features(*), specifications:car_specifications(*)''"

text \<open>
  \<^verbatim>\<open>getCarById\<close> and \<^verbatim>\<open>getCarBySlug\<close> have one body, up to the column they filter on and
  the two messages of the \<^verbatim>\<open>catch\<close> block.
\<close>

definition getAssembled ::
  "faults \<Rightarrow> (js_error \<Rightarrow> string) \<Rightarrow> (CarBase \<Rightarrow> bool) \<Rightarrow> string \<Rightarrow> string \<Rightarrow> store \<Rightarrow> (js_error + AppCar option) \<times> store" where
  "getAssembled fails handleSupabaseError matches label fallback s =
     (case select_cars fails cols_full (filter matches) s of
        (r, s1) \<Rightarrow>
          (case maybeSingle r of
             Inl carError \<Rightarrow>
               (Inl (rethrow handleSupabaseError fallback carError),
                console_error [Str label, Err (Some carError)] s1)
           | Inr None \<Rightarrow> (Inr None, s1)
           | Inr (Some carData) \<Rightarrow> (Inr (Some (assembleCar carData)), s1)))"

definition getCarById ::
  "faults \<Rightarrow> (js_error \<Rightarrow> string) \<Rightarrow> store \<Rightarrow> uuid \<Rightarrow> (js_error + AppCar option) \<times> store" where
  "getCarById fails handleSupabaseError s ident =
     getAssembled fails handleSupabaseError (\<lambda>r. c_id r = ident)
       ''Error in getCarById:'' ''An unexpected error occurred fetching car by ID'' s"


text \<open>The derivations shared by the list projections.\<close>

text \<open>
  \<^verbatim>\<open>car.images?.sort(...).find(img => img.is_primary) || car.images?.[0]\<close>; the sort is
  in place, so \<^verbatim>\<open>car.images[0]\<close> is the first image after sorting.
\<close>

definition primaryImage :: "CarImage list \<Rightarrow> CarImage option" where
  "primaryImage imgs =
     (let sorted = sort_key sort_order_key imgs
      in case find (\<lambda>img. is_primary img = Some True) sorted of
           Some img \<Rightarrow> Some img
         | None \<Rightarrow> (case sorted of [] \<Rightarrow> None | img # _ \<Rightarrow> Some img))"

text \<open>\<^verbatim>\<open>car.pricing?.[0]?.base_price ?? car.pricing?.base_price\<close>\<close>

definition price :: "pricing_join \<Rightarrow> int option" where
  "price p =
     (case p of
        PricingArray ps \<Rightarrow> (case ps of [] \<Rightarrow> None | x # _ \<Rightarrow> p_base_price x)
      | PricingObject po \<Rightarrow> (case po of None \<Rightarrow> None | Some x \<Rightarrow> p_base_price x))"

record FleetCar =
  fl_id :: uuid
  fl_slug :: js_string
  fl_name :: js_string
  fl_category :: "string option"
  shortDescription :: "string option"
  isFeatured :: "bool option"
  primaryImageUrl :: "string option"
  pricePerDay :: "int option"

definition toFleetCar :: "joined_car \<Rightarrow> FleetCar" where
  "toFleetCar car =
     \<lparr>fl_id = c_id (j_car car),
      fl_slug = c_slug (j_car car),
      fl_name = c_name (j_car car),
      fl_category = c_category (j_car car),
      shortDescription = c_short_description (j_car car),
      isFeatured = c_featured (j_car car),
      primaryImageUrl = map_option url (primaryImage (j_images car)),
      pricePerDay = price (j_pricing car)\<rparr>"

definition cols_fleet :: string where
  "cols_fleet = ''id, slug, name, category, short_description, featured, pricing:car_pricing(base_price), images:car_images(url, is_primary, sort_order)''"

text \<open>
  \<^verbatim>\<open>.eq("available", true).eq("hidden", false).order("featured", desc).order("created_at", desc)\<close>:
  the first ordering is the primary one.
\<close>

definition visible_query :: "CarBase list \<Rightarrow> CarBase list" where
  "visible_query rows =
     order_desc (\<lambda>r. bool_rank (c_featured r))
       (order_desc c_created_at
         (filter (\<lambda>r. c_hidden r = Some False)
           (filter (\<lambda>r. c_available r = Some True) rows)))"

definition getVisibleCarsForFleet ::
  "faults \<Rightarrow> (js_error \<Rightarrow> string) \<Rightarrow> store \<Rightarrow> (js_error + FleetCar list) \<times> store" where
  "getVisibleCarsForFleet fails handleSupabaseError s =
     (case select_cars fails cols_fleet visible_query s of
        (Inl error, s1) \<Rightarrow>
          (Inl (rethrow handleSupabaseError ''An unexpected error occurred fetching visible cars for fleet'' error),
           console_error [Str ''Error in getVisibleCarsForFleet:'', Err (Some error)]
             (console_error [Str ''Error in getVisibleCarsForFleet Query:'', Err (Some error)] s1))
      | (Inr data, s1) \<Rightarrow> (Inr (map toFleetCar data), s1))"

record RelatedCar =
  r_id :: uuid
  r_slug :: js_string
  r_name :: js_string
  r_category :: "string option"
  r_primaryImageUrl :: "string option"
  r_pricePerDay :: "int option"

definition toRelatedCar :: "joined_car \<Rightarrow> RelatedCar" where
  "toRelatedCar car =
     \<lparr>r_id = c_id (j_car car),
      r_slug = c_slug (j_car car),
      r_name = c_name (j_car car),
      r_category = c_category (j_car car),
      r_primaryImageUrl = map_option url (primaryImage (j_images car)),
      r_pricePerDay = price (j_pricing car)\<rparr>"

definition cols_related :: string where
  "cols_related = ''id, slug, name, category, pricing:car_pricing(base_price), images:car_images(url, is_primary, sort_order)''"

text \<open>
  \<^verbatim>\<open>.eq("category", c).neq("id", carId).eq("available", true).eq("hidden", false).limit(limit)\<close>
\<close>

definition related_query :: "string \<Rightarrow> uuid \<Rightarrow> nat \<Rightarrow> CarBase list \<Rightarrow> CarBase list" where
  "related_query c carId limit rows =
     take limit
       (filter (\<lambda>r. c_hidden r = Some False)
         (filter (\<lambda>r. c_available r = Some True)
           (filter (\<lambda>r. c_id r \<noteq> carId)
             (filter (\<lambda>r. c_category r = Some c) rows))))"

text \<open>The parameter \<^verbatim>\<open>limit = 3\<close>: a caller that leaves it out gets 3.\<close>

definition getRelatedCars ::
  "faults \<Rightarrow> (js_error \<Rightarrow> string) \<Rightarrow> store \<Rightarrow> uuid \<Rightarrow> nat option \<Rightarrow> (js_error + RelatedCar list) \<times> store" where
  "getRelatedCars fails handleSupabaseError s carId limit_arg =
     (let limit = (case limit_arg of None \<Rightarrow> 3 | Some n \<Rightarrow> n);
          fallback = ''An unexpected error occurred fetching related cars''
      in case select_cars fails ''category'' (filter (\<lambda>r. c_id r = carId)) s of
           (r, s1) \<Rightarrow>
             (case maybeSingle r of
                Inl carError \<Rightarrow>
                  (Inl (rethrow handleSupabaseError fallback carError),
                   console_error [Str ''Error fetching related cars:'', Err (Some carError)]
                     (console_error
                        [Str ''Error fetching current car category for related cars:'', Err (Some carError)] s1))
              | Inr currentCar \<Rightarrow>
                  (case (case currentCar of None \<Rightarrow> None | Some c \<Rightarrow> c_category (j_car c)) of
                     None \<Rightarrow> (Inr [], s1)
                   | Some cat \<Rightarrow>
                       if cat = [] then (Inr [], s1)
                       else
                         (case select_cars fails cols_related (related_query cat carId limit) s1 of
                            (Inl relatedError, s2) \<Rightarrow>
                              (Inl (rethrow handleSupabaseError fallback relatedError),
                               console_error [Str ''Error fetching related cars:'', Err (Some relatedError)]
                                 (console_error
                                    [Str ''Error fetching related car details:'', Err (Some relatedError)] s2))
                          | (Inr relatedCars, s2) \<Rightarrow> (Inr (map toRelatedCar relatedCars), s2)))))"

subsection \<open>Writes of the store\<close>

text \<open>
  A call that fails changes no table. An insert gives each row an identifier of the
  store's own and keeps the object it was given.
\<close>

record CarInsertData =
  ci_name :: js_string
  ci_slug :: js_string
  ci_category :: string
  ci_description :: string
  ci_short_description :: "string opt"
  ci_available :: bool
  ci_featured :: bool
  ci_hidden :: bool
  ci_created_by :: "string option"

definition insert_car :: "faults \<Rightarrow> CarInsertData \<Rightarrow> store \<Rightarrow> (js_error option \<times> CarBase option) \<times> store" where
  "insert_car fails payload s =
     (case request fails (Insert Cars) s of
        (Some e, s1) \<Rightarrow> ((Some e, None), s1)
      | (None, s1) \<Rightarrow>
          (let row = \<lparr>c_id = uuid_of (next_id s1),
                      c_slug = ci_slug payload,
                      c_name = ci_name payload,
                      c_category = Some (ci_category payload),
                      c_description = Some (ci_description payload),
                      c_short_description =
                        (case ci_short_description payload of Val v \<Rightarrow> Some v | _ \<Rightarrow> None),
                      c_available = Some (ci_available payload),
                      c_featured = Some (ci_featured payload),
                      c_hidden = Some (ci_hidden payload),
                      c_created_by = ci_created_by payload,
                      c_created_at = clock s1\<rparr>
           in ((None, Some row),
               s1\<lparr>cars := cars s1 @ [row], next_id := Suc (next_id s1), clock := Suc (clock s1)\<rparr>)))"

definition delete_car :: "faults \<Rightarrow> uuid \<Rightarrow> store \<Rightarrow> js_error option \<times> store" where
  "delete_car fails carId s =
     (case request fails (Delete Cars) s of
        (Some e, s1) \<Rightarrow> (Some e, s1)
      | (None, s1) \<Rightarrow> (None, s1\<lparr>cars := filter (\<lambda>r. c_id r \<noteq> carId) (cars s1)\<rparr>))"

definition insert_pricing :: "faults \<Rightarrow> uuid \<Rightarrow> PricingInsertData \<Rightarrow> store \<Rightarrow> (js_error + CarPricing) \<times> store" where
  "insert_pricing fails carId p s =
     (case request fails (Insert CarPricingT) s of
        (Some e, s1) \<Rightarrow> (Inl e, s1)
      | (None, s1) \<Rightarrow>
          (let row = \<lparr>p_id = uuid_of (next_id s1), p_car_id = carId, p_base_price = base_price p\<rparr>
           in (Inr row, s1\<lparr>car_pricing := car_pricing s1 @ [row], next_id := Suc (next_id s1)\<rparr>)))"

definition image_row :: "uuid \<Rightarrow> uuid \<Rightarrow> ImageInsertData \<Rightarrow> CarImage" where
  "image_row ident carId img =
     \<lparr>url = url img, path = path img, is_primary = is_primary img, sort_order = sort_order img,
      i_id = ident, i_car_id = carId\<rparr>"

definition insert_images :: "faults \<Rightarrow> uuid \<Rightarrow> ImageInsertData list \<Rightarrow> store \<Rightarrow> (js_error + CarImage list) \<times> store" where
  "insert_images fails carId imgs s =
     (case request fails (Insert CarImages) s of
        (Some e, s1) \<Rightarrow> (Inl e, s1)
      | (None, s1) \<Rightarrow>
          (let rows = map (\<lambda>(k, img). image_row (uuid_of k) carId img) (enumerate (next_id s1) imgs)
           in (Inr (map (selected s1) rows),
               s1\<lparr>car_images := car_images s1 @ rows, next_id := next_id s1 + length imgs\<rparr>)))"

definition insert_features :: "faults \<Rightarrow> uuid \<Rightarrow> FeatureInsertData list \<Rightarrow> store \<Rightarrow> (js_error + CarFeature list) \<times> store" where
  "insert_features fails carId fs s =
     (case request fails (Insert CarFeatures) s of
        (Some e, s1) \<Rightarrow> (Inl e, s1)
      | (None, s1) \<Rightarrow>
          (let rows = map (\<lambda>(k, f). \<lparr>f_id = uuid_of k, f_car_id = carId, f_data = f\<rparr>)
                        (enumerate (next_id s1) fs)
           in (Inr rows, s1\<lparr>car_features := car_features s1 @ rows, next_id := next_id s1 + length fs\<rparr>)))"

definition insert_specifications ::
  "faults \<Rightarrow> uuid \<Rightarrow> SpecificationInsertData list \<Rightarrow> store \<Rightarrow> (js_error + CarSpecification list) \<times> store" where
  "insert_specifications fails carId xs s =
     (case request fails (Insert CarSpecifications) s of
        (Some e, s1) \<Rightarrow> (Inl e, s1)
      | (None, s1) \<Rightarrow>
          (let rows = map (\<lambda>(k, x). \<lparr>sp_id = uuid_of k, sp_car_id = carId, sp_data = x\<rparr>)
                        (enumerate (next_id s1) xs)
           in (Inr rows,
               s1\<lparr>car_specifications := car_specifications s1 @ rows, next_id := next_id s1 + length xs\<rparr>)))"

subsection \<open>createCar\<close>

definition baseCarPayload ::
  "(js_string \<Rightarrow> js_string) \<Rightarrow> AppCarUpsert \<Rightarrow> string option \<Rightarrow> CarInsertData" where
  "baseCarPayload unicode_lower carData userId =
     \<lparr>ci_name = name carData,
      ci_slug = generateSlug unicode_lower (name carData),
      ci_category = category carData,
      ci_description = nullish (description carData) [],
      ci_short_description = short_description carData,
      ci_available = nullish (available carData) True,
      ci_featured = nullish (featured carData) False,
      ci_hidden = nullish (hidden carData) False,
      ci_created_by = userId\<rparr>"

text \<open>The four steps of the \<^verbatim>\<open>try\<close> block; each throws an \<^verbatim>\<open>Error\<close> of its own.\<close>

definition createPricing :: "faults \<Rightarrow> AppCarUpsert \<Rightarrow> uuid \<Rightarrow> store \<Rightarrow> (js_error + CarPricing option) \<times> store" where
  "createPricing fails carData carId s =
     (case pricing carData of
        None \<Rightarrow> (Inr None, s)
      | Some p \<Rightarrow>
          (case insert_pricing fails carId p s of
             (Inl error, s1) \<Rightarrow> (Inl (Error (''Pricing insert failed: '' @ message error)), s1)
           | (Inr data, s1) \<Rightarrow> (Inr (Some data), s1)))"

definition createImages :: "faults \<Rightarrow> AppCarUpsert \<Rightarrow> uuid \<Rightarrow> store \<Rightarrow> (js_error + CarImage list) \<times> store" where
  "createImages fails carData carId s =
     (if images carData \<noteq> [] then
        (case insert_images fails carId (images carData) s of
           (Inl error, s1) \<Rightarrow> (Inl (Error (''Images insert failed: '' @ message error)), s1)
         | (Inr data, s1) \<Rightarrow> (Inr data, s1))
      else (Inr [], s))"

definition createFeatures :: "faults \<Rightarrow> AppCarUpsert \<Rightarrow> uuid \<Rightarrow> store \<Rightarrow> (js_error + CarFeature list) \<times> store" where
  "createFeatures fails carData carId s =
     (if features carData \<noteq> [] then
        (case insert_features fails carId (features carData) s of
           (Inl error, s1) \<Rightarrow> (Inl (Error (''Features insert failed: '' @ message error)), s1)
         | (Inr data, s1) \<Rightarrow> (Inr data, s1))
      else (Inr [], s))"

definition createSpecifications ::
  "faults \<Rightarrow> AppCarUpsert \<Rightarrow> uuid \<Rightarrow> store \<Rightarrow> (js_error + CarSpecification list) \<times> store" where
  "createSpecifications fails carData carId s =
     (if specifications carData \<noteq> [] then
        (case insert_specifications fails carId (specifications carData) s of
           (Inl error, s1) \<Rightarrow> (Inl (Error (''Specifications insert failed: '' @ message error)), s1)
         | (Inr data, s1) \<Rightarrow> (Inr data, s1))
      else (Inr [], s))"

definition createRelated :: "faults \<Rightarrow> AppCarUpsert \<Rightarrow> CarBase \<Rightarrow> store \<Rightarrow> (js_error + AppCar) \<times> store" where
  "createRelated fails carData newCar s =
     (case createPricing fails carData (c_id newCar) s of
        (Inl error, s1) \<Rightarrow> (Inl error, s1)
      | (Inr pricingResult, s1) \<Rightarrow>
     (case createImages fails carData (c_id newCar) s1 of
        (Inl error, s2) \<Rightarrow> (Inl error, s2)
      | (Inr imagesResult, s2) \<Rightarrow>
     (case createFeatures fails carData (c_id newCar) s2 of
        (Inl error, s3) \<Rightarrow> (Inl error, s3)
      | (Inr featuresResult, s3) \<Rightarrow>
     (case createSpecifications fails carData (c_id newCar) s3 of
        (Inl error, s4) \<Rightarrow> (Inl error, s4)
      | (Inr specsResult, s4) \<Rightarrow>
          (Inr \<lparr>a_base = newCar,
                a_pricing = pricingResult,
                a_images = sortImages imagesResult,
                a_features = featuresResult,
                a_specifications = specsResult\<rparr>, s4)))))"

definition createCar ::
  "(js_string \<Rightarrow> js_string) \<Rightarrow> faults \<Rightarrow> (js_error \<Rightarrow> string) \<Rightarrow> store \<Rightarrow> AppCarUpsert \<Rightarrow> string option \<Rightarrow> (js_error + AppCar) \<times> store" where
  "createCar unicode_lower fails handleSupabaseError s carData userId =
     (if name carData = [] then (Inl (Error ''Car name is required to create a car.''), s)
      else
        (case insert_car fails (baseCarPayload unicode_lower carData userId) s of
           ((None, Some newCar), s1) \<Rightarrow>
             (case createRelated fails carData newCar s1 of
                (Inr car, s2) \<Rightarrow> (Inr car, s2)
              | (Inl error, s2) \<Rightarrow>
                  (Inl (rethrow handleSupabaseError
                         ''An unexpected error occurred creating related car data.'' error),
                   snd (delete_car fails (c_id newCar)
                          (console_error
                             [Str ''Error inserting related data, attempting cleanup for car:'',
                              Str (c_id newCar), Err (Some error)] s2))))
         | ((carError, _), s1) \<Rightarrow>
             (Inl (case carError of
                     Some e \<Rightarrow> e
                   | None \<Rightarrow> Error ''Failed to create car: No data returned.''),
              console_error [Str ''Error creating base car:'', Err carError] s1)))"

subsection \<open>updateCar\<close>

text \<open>
  A property of the update payload: the key is not there, the key is there with the
  value \<^verbatim>\<open>undefined\<close>, or it holds a value. \<^verbatim>\<open>Object.keys\<close> counts the last two;
  the request body, being JSON, carries only the last.
\<close>

datatype 'a patch = NoKey | KeyUndefined | Key 'a

record CarUpdate =
  cu_name :: "js_string patch"
  cu_slug :: "js_string patch"
  cu_category :: "string patch"
  cu_description :: "string patch"
  cu_short_description :: "string patch"
  cu_available :: "bool patch"
  cu_featured :: "bool patch"
  cu_hidden :: "bool patch"

text \<open>\<^verbatim>\<open>if (x !== undefined) payload.f = x\<close>\<close>

definition assign_defined :: "'a option \<Rightarrow> 'a patch" where
  "assign_defined x = (case x of None \<Rightarrow> NoKey | Some v \<Rightarrow> Key v)"

text \<open>\<^verbatim>\<open>if (x !== undefined) payload.f = x === null ? undefined : x\<close>\<close>

definition assign_nullable :: "'a opt \<Rightarrow> 'a patch" where
  "assign_nullable x = (case x of Undefined \<Rightarrow> NoKey | Null \<Rightarrow> KeyUndefined | Val v \<Rightarrow> Key v)"

definition baseCarUpdatePayload ::
  "(js_string \<Rightarrow> js_string) \<Rightarrow> PartialAppCarUpsert \<Rightarrow> CarUpdate" where
  "baseCarUpdatePayload unicode_lower updates =
     \<lparr>cu_name = assign_defined (u_name updates),
      cu_slug = assign_defined (map_option (generateSlug unicode_lower) (u_name updates)),
      cu_category = assign_defined (u_category updates),
      cu_description = assign_nullable (u_description updates),
      cu_short_description = assign_nullable (u_short_description updates),
      cu_available = assign_nullable (u_available updates),
      cu_featured = assign_nullable (u_featured updates),
      cu_hidden = assign_nullable (u_hidden updates)\<rparr>"

text \<open>\<^verbatim>\<open>Object.keys(baseCarUpdatePayload).length\<close>\<close>

definition has_key :: "'a patch \<Rightarrow> bool" where
  "has_key x = (x \<noteq> NoKey)"

definition keys_length :: "CarUpdate \<Rightarrow> nat" where
  "keys_length p =
     length (filter (\<lambda>b. b)
       [has_key (cu_name p), has_key (cu_slug p), has_key (cu_category p),
        has_key (cu_description p), has_key (cu_short_description p),
        has_key (cu_available p), has_key (cu_featured p), has_key (cu_hidden p)])"

text \<open>The columns a row gets from the request body: those whose key holds a value.\<close>

definition set_column :: "'a patch \<Rightarrow> 'a \<Rightarrow> 'a" where
  "set_column x old = (case x of Key v \<Rightarrow> v | _ \<Rightarrow> old)"

definition set_nullable_column :: "'a patch \<Rightarrow> 'a option \<Rightarrow> 'a option" where
  "set_nullable_column x old = (case x of Key v \<Rightarrow> Some v | _ \<Rightarrow> old)"

definition apply_update :: "CarUpdate \<Rightarrow> CarBase \<Rightarrow> CarBase" where
  "apply_update p r =
     r\<lparr>c_name := set_column (cu_name p) (c_name r),
       c_slug := set_column (cu_slug p) (c_slug r),
       c_category := set_nullable_column (cu_category p) (c_category r),
       c_description := set_nullable_column (cu_description p) (c_description r),
       c_short_description := set_nullable_column (cu_short_description p) (c_short_description r),
       c_available := set_nullable_column (cu_available p) (c_available r),
       c_featured := set_nullable_column (cu_featured p) (c_featured r),
       c_hidden := set_nullable_column (cu_hidden p) (c_hidden r)\<rparr>"

definition update_car :: "faults \<Rightarrow> CarUpdate \<Rightarrow> uuid \<Rightarrow> store \<Rightarrow> js_error option \<times> store" where
  "update_car fails payload carId s =
     (case request fails (Update Cars) s of
        (Some e, s1) \<Rightarrow> (Some e, s1)
      | (None, s1) \<Rightarrow>
          (None, s1\<lparr>cars := map (\<lambda>r. if c_id r = carId then apply_update payload r else r) (cars s1)\<rparr>))"

text \<open>\<^verbatim>\<open>.upsert({ ...pricing, car_id }, { onConflict: 'car_id' })\<close>\<close>

definition upsert_pricing :: "faults \<Rightarrow> uuid \<Rightarrow> PricingInsertData \<Rightarrow> store \<Rightarrow> js_error option \<times> store" where
  "upsert_pricing fails carId p s =
     (case request fails (Upsert CarPricingT) s of
        (Some e, s1) \<Rightarrow> (Some e, s1)
      | (None, s1) \<Rightarrow>
          (if list_ex (\<lambda>r. p_car_id r = carId) (car_pricing s1)
           then (None, s1\<lparr>car_pricing :=
                   map (\<lambda>r. if p_car_id r = carId then r\<lparr>p_base_price := base_price p\<rparr> else r)
                     (car_pricing s1)\<rparr>)
           else (None, s1\<lparr>car_pricing := car_pricing s1 @
                     [\<lparr>p_id = uuid_of (next_id s1), p_car_id = carId, p_base_price = base_price p\<rparr>],
                   next_id := Suc (next_id s1)\<rparr>)))"

definition select_images :: "faults \<Rightarrow> uuid \<Rightarrow> store \<Rightarrow> (js_error + CarImage list) \<times> store" where
  "select_images fails carId s =
     (case request fails (Select CarImages ''id, path'') s of
        (Some e, s1) \<Rightarrow> (Inl e, s1)
      | (None, s1) \<Rightarrow> (Inr (filter (\<lambda>i. i_car_id i = carId) (car_images s1)), s1))"

text \<open>\<^verbatim>\<open>supabase.storage.from(BUCKET_NAMES.VEHICLE_IMAGES).remove(paths)\<close>\<close>

definition storage_remove :: "faults \<Rightarrow> string list \<Rightarrow> store \<Rightarrow> js_error option \<times> store" where
  "storage_remove fails paths s =
     (case request fails (StorageRemove paths) s of
        (Some e, s1) \<Rightarrow> (Some e, s1)
      | (None, s1) \<Rightarrow> (None, s1\<lparr>bucket := filter (\<lambda>p. p \<notin> set paths) (bucket s1)\<rparr>))"

text \<open>\<^verbatim>\<open>.delete().in("id", ids)\<close>\<close>

definition delete_images_in :: "faults \<Rightarrow> uuid list \<Rightarrow> store \<Rightarrow> js_error option \<times> store" where
  "delete_images_in fails ids s =
     (case request fails (Delete CarImages) s of
        (Some e, s1) \<Rightarrow> (Some e, s1)
      | (None, s1) \<Rightarrow> (None, s1\<lparr>car_images := filter (\<lambda>i. i_id i \<notin> set ids) (car_images s1)\<rparr>))"

text \<open>
  \<^verbatim>\<open>.upsert(images, { onConflict: 'car_id, path' })\<close>: a row of the same car and path is
  replaced in place, any other image is a new row. A \<^verbatim>\<open>null\<close> path conflicts with
  nothing.
\<close>

definition upsert_image :: "uuid \<Rightarrow> ImageInsertData \<Rightarrow> CarImage list \<times> nat \<Rightarrow> CarImage list \<times> nat" where
  "upsert_image carId img acc =
     (case acc of (rows, n) \<Rightarrow>
        if path img \<noteq> None \<and> list_ex (\<lambda>r. i_car_id r = carId \<and> path r = path img) rows
        then (map (\<lambda>r. if i_car_id r = carId \<and> path r = path img
                        then image_row (i_id r) carId img else r) rows, n)
        else (rows @ [image_row (uuid_of n) carId img], Suc n))"

definition upsert_images :: "faults \<Rightarrow> uuid \<Rightarrow> ImageInsertData list \<Rightarrow> store \<Rightarrow> js_error option \<times> store" where
  "upsert_images fails carId imgs s =
     (case request fails (Upsert CarImages) s of
        (Some e, s1) \<Rightarrow> (Some e, s1)
      | (None, s1) \<Rightarrow>
          (case fold (upsert_image carId) imgs (car_images s1, next_id s1) of
             (rows, n) \<Rightarrow> (None, s1\<lparr>car_images := rows, next_id := n\<rparr>)))"

text \<open>\<^verbatim>\<open>.delete().eq("car_id", carId)\<close> on each related table.\<close>

definition delete_pricing :: "faults \<Rightarrow> uuid \<Rightarrow> store \<Rightarrow> js_error option \<times> store" where
  "delete_pricing fails carId s =
     (case request fails (Delete CarPricingT) s of
        (Some e, s1) \<Rightarrow> (Some e, s1)
      | (None, s1) \<Rightarrow> (None, s1\<lparr>car_pricing := filter (\<lambda>r. p_car_id r \<noteq> carId) (car_pricing s1)\<rparr>))"

definition delete_features :: "faults \<Rightarrow> uuid \<Rightarrow> store \<Rightarrow> js_error option \<times> store" where
  "delete_features fails carId s =
     (case request fails (Delete CarFeatures) s of
        (Some e, s1) \<Rightarrow> (Some e, s1)
      | (None, s1) \<Rightarrow> (None, s1\<lparr>car_features := filter (\<lambda>r. f_car_id r \<noteq> carId) (car_features s1)\<rparr>))"

definition delete_specifications :: "faults \<Rightarrow> uuid \<Rightarrow> store \<Rightarrow> js_error option \<times> store" where
  "delete_specifications fails carId s =
     (case request fails (Delete CarSpecifications) s of
        (Some e, s1) \<Rightarrow> (Some e, s1)
      | (None, s1) \<Rightarrow>
          (None, s1\<lparr>car_specifications := filter (\<lambda>r. sp_car_id r \<noteq> carId) (car_specifications s1)\<rparr>))"

definition delete_images :: "faults \<Rightarrow> uuid \<Rightarrow> store \<Rightarrow> js_error option \<times> store" where
  "delete_images fails carId s =
     (case request fails (Delete CarImages) s of
        (Some e, s1) \<Rightarrow> (Some e, s1)
      | (None, s1) \<Rightarrow> (None, s1\<lparr>car_images := filter (\<lambda>r. i_car_id r \<noteq> carId) (car_images s1)\<rparr>))"

text \<open>The steps of the \<^verbatim>\<open>try\<close> block: \<open>Some\<close> is the error a step throws.\<close>

definition updatePricing :: "faults \<Rightarrow> uuid \<Rightarrow> PartialAppCarUpsert \<Rightarrow> store \<Rightarrow> js_error option \<times> store" where
  "updatePricing fails carId updates s =
     (case u_pricing updates of
        None \<Rightarrow> (None, s)
      | Some p \<Rightarrow>
          (case upsert_pricing fails carId p s of
             (Some error, s1) \<Rightarrow> (Some (Error (''Pricing update/insert failed: '' @ message error)), s1)
           | (None, s1) \<Rightarrow> (None, s1)))"

text \<open>\<^verbatim>\<open>existingImages.filter(img => img.path && !incomingImagePaths.has(img.path))\<close>\<close>

definition imagesToDelete :: "CarImage list \<Rightarrow> ImageInsertData list \<Rightarrow> CarImage list" where
  "imagesToDelete existingImages incoming =
     filter (\<lambda>img. truthy (path img) \<and> path img \<notin> set (map path incoming)) existingImages"

text \<open>\<^verbatim>\<open>imgs.map(img => img.path).filter(Boolean)\<close>\<close>

definition truthy_paths :: "CarImage list \<Rightarrow> string list" where
  "truthy_paths imgs = map the (filter truthy (map path imgs))"

definition removeImages :: "faults \<Rightarrow> CarImage list \<Rightarrow> store \<Rightarrow> js_error option \<times> store" where
  "removeImages fails toDelete s =
     (if toDelete \<noteq> [] then
        (let pathsToDelete = truthy_paths toDelete;
             idsToDelete = map i_id toDelete;
             s1 = (if pathsToDelete \<noteq> [] then
                     (case storage_remove fails pathsToDelete s of
                        (Some storageError, s') \<Rightarrow>
                          console_error [Str ''Error deleting images from storage:'', Err (Some storageError)] s'
                      | (None, s') \<Rightarrow> s')
                   else s)
         in case delete_images_in fails idsToDelete s1 of
              (Some dbDeleteError, s2) \<Rightarrow>
                (Some (Error (''Failed to delete images from DB: '' @ message dbDeleteError)), s2)
            | (None, s2) \<Rightarrow> (None, s2))
      else (None, s))"

definition updateImages :: "faults \<Rightarrow> uuid \<Rightarrow> PartialAppCarUpsert \<Rightarrow> store \<Rightarrow> js_error option \<times> store" where
  "updateImages fails carId updates s =
     (case u_images updates of
        None \<Rightarrow> (None, s)
      | Some incoming \<Rightarrow>
          (case select_images fails carId s of
             (Inl fetchErr, s1) \<Rightarrow>
               (Some (Error (''Failed to fetch existing images: '' @ message fetchErr)), s1)
           | (Inr existingImages, s1) \<Rightarrow>
               (case removeImages fails (imagesToDelete existingImages incoming) s1 of
                  (Some error, s2) \<Rightarrow> (Some error, s2)
                | (None, s2) \<Rightarrow>
                    if incoming \<noteq> [] then
                      (case upsert_images fails carId incoming s2 of
                         (Some upsertError, s3) \<Rightarrow>
                           (Some (Error (''Failed to upsert images: '' @ message upsertError)), s3)
                       | (None, s3) \<Rightarrow> (None, s3))
                    else (None, s2))))"

definition updateFeatures :: "faults \<Rightarrow> uuid \<Rightarrow> PartialAppCarUpsert \<Rightarrow> store \<Rightarrow> js_error option \<times> store" where
  "updateFeatures fails carId updates s =
     (case u_features updates of
        None \<Rightarrow> (None, s)
      | Some fs \<Rightarrow>
          (case delete_features fails carId s of
             (Some deleteError, s1) \<Rightarrow>
               (Some (Error (''Failed to delete old features: '' @ message deleteError)), s1)
           | (None, s1) \<Rightarrow>
               if fs \<noteq> [] then
                 (case insert_features fails carId fs s1 of
                    (Inl insertError, s2) \<Rightarrow>
                      (Some (Error (''Failed to insert new features: '' @ message insertError)), s2)
                  | (Inr _, s2) \<Rightarrow> (None, s2))
               else (None, s1)))"

definition updateSpecifications ::
  "faults \<Rightarrow> uuid \<Rightarrow> PartialAppCarUpsert \<Rightarrow> store \<Rightarrow> js_error option \<times> store" where
  "updateSpecifications fails carId updates s =
     (case u_specifications updates of
        None \<Rightarrow> (None, s)
      | Some xs \<Rightarrow>
          (case delete_specifications fails carId s of
             (Some deleteError, s1) \<Rightarrow>
               (Some (Error (''Failed to delete old specifications: '' @ message deleteError)), s1)
           | (None, s1) \<Rightarrow>
               if xs \<noteq> [] then
                 (case insert_specifications fails carId xs s1 of
                    (Inl insertError, s2) \<Rightarrow>
                      (Some (Error (''Failed to insert new specifications: '' @ message insertError)), s2)
                  | (Inr _, s2) \<Rightarrow> (None, s2))
               else (None, s1)))"

text \<open>Sequencing inside a \<^verbatim>\<open>try\<close> block: a thrown error skips the steps that follow.\<close>

definition and_then ::
  "js_error option \<times> store \<Rightarrow> (store \<Rightarrow> js_error option \<times> store) \<Rightarrow> js_error option \<times> store" where
  "and_then r f = (case r of (Some e, s) \<Rightarrow> (Some e, s) | (None, s) \<Rightarrow> f s)"

definition updateRelated :: "faults \<Rightarrow> uuid \<Rightarrow> PartialAppCarUpsert \<Rightarrow> store \<Rightarrow> js_error option \<times> store" where
  "updateRelated fails carId updates s =
     and_then (and_then (and_then (updatePricing fails carId updates s)
       (updateImages fails carId updates))
       (updateFeatures fails carId updates))
       (updateSpecifications fails carId updates)"

definition updateBase :: "(js_string \<Rightarrow> js_string) \<Rightarrow> faults \<Rightarrow> uuid \<Rightarrow> PartialAppCarUpsert \<Rightarrow> store \<Rightarrow> js_error option \<times> store" where
  "updateBase unicode_lower fails carId updates s =
     (if keys_length (baseCarUpdatePayload unicode_lower updates) > 0
      then update_car fails (baseCarUpdatePayload unicode_lower updates) carId s
      else (None, s))"

definition updateCar ::
  "(js_string \<Rightarrow> js_string) \<Rightarrow> faults \<Rightarrow> (js_error \<Rightarrow> string) \<Rightarrow> store \<Rightarrow> uuid \<Rightarrow> PartialAppCarUpsert \<Rightarrow> (js_error + AppCar) \<times> store" where
  "updateCar unicode_lower fails handleSupabaseError s carId updates =
     (case updateBase unicode_lower fails carId updates s of
        (Some updateError, s1) \<Rightarrow>
          (Inl updateError, console_error [Str ''Error updating base car:'', Err (Some updateError)] s1)
      | (None, s1) \<Rightarrow>
          (case updateRelated fails carId updates s1 of
             (Some error, s2) \<Rightarrow>
               (Inl (rethrow handleSupabaseError
                      ''An unexpected error occurred updating related car data.'' error),
                console_error [Str ''Error updating related car data:'', Err (Some error)] s2)
           | (None, s2) \<Rightarrow>
               (case getCarById fails handleSupabaseError s2 carId of
                  (Inl e, s3) \<Rightarrow> (Inl e, s3)
                | (Inr None, s3) \<Rightarrow>
                    (Inl (Error (''Failed to fetch updated car '' @ carId @ '' after update.'')), s3)
                | (Inr (Some updatedCar), s3) \<Rightarrow> (Inr updatedCar, s3))))"

subsection \<open>deleteCar\<close>

text \<open>
  The four deletes of \<^verbatim>\<open>Promise.all\<close> touch four different tables, so their order does
  not matter; they are run in the order of the array. Each promise resolves with the
  response of the store, \<^verbatim>\<open>{ data, error }\<close>, which the source does not read.
\<close>

definition deleteRelated :: "faults \<Rightarrow> uuid \<Rightarrow> store \<Rightarrow> js_error option list \<times> store" where
  "deleteRelated fails carId s =
     (case delete_pricing fails carId s of (r1, s1) \<Rightarrow>
      case delete_features fails carId s1 of (r2, s2) \<Rightarrow>
      case delete_specifications fails carId s2 of (r3, s3) \<Rightarrow>
      case delete_images fails carId s3 of (r4, s4) \<Rightarrow>
        ([r1, r2, r3, r4], s4))"

definition deleteCar ::
  "faults \<Rightarrow> (js_error \<Rightarrow> string) \<Rightarrow> store \<Rightarrow> uuid \<Rightarrow> (js_error + bool) \<times> store" where
  "deleteCar fails handleSupabaseError s carId =
     (let label = ''Error deleting car '' @ carId @ '':'';
          fallback = ''An unexpected error occurred deleting car''
      in case select_images fails carId s of
           (Inl imgError, s1) \<Rightarrow>
             (Inl (rethrow handleSupabaseError fallback imgError),
              console_error [Str label, Err (Some imgError)]
                (console_error [Str ''Failed to fetch images for deletion:'', Err (Some imgError)] s1))
         | (Inr imgs, s1) \<Rightarrow>
             (let imagePathsToDelete = truthy_paths imgs
              in case deleteRelated fails carId s1 of
                   (_, s2) \<Rightarrow>
                     (case delete_car fails carId s2 of
                        (Some carDeleteError, s3) \<Rightarrow>
                          (Inl (rethrow handleSupabaseError fallback carDeleteError),
                           console_error [Str label, Err (Some carDeleteError)]
                             (console_error
                                [Str ''Error deleting main car record:'', Err (Some carDeleteError)] s3))
                      | (None, s3) \<Rightarrow>
                          (if imagePathsToDelete \<noteq> [] then
                             (case storage_remove fails imagePathsToDelete s3 of
                                (Some storageError, s4) \<Rightarrow>
                                  (Inr True,
                                   console_error
                                     [Str ''Error deleting images from storage after DB deletion:'',
                                      Err (Some storageError)] s4)
                              | (None, s4) \<Rightarrow> (Inr True, s4))
                           else (Inr True, s3)))))"

section \<open>The first related insert that fails\<close>

text \<open>
  The error thrown inside the \<^verbatim>\<open>try\<close> block of \<^verbatim>\<open>createCar\<close>, read off the payload and
  the faults of the store: the steps run in the order pricing, images, features,
  specifications; a step is attempted when its payload is there (not empty), and the
  first attempted step whose insert fails throws.
\<close>

definition step_error :: "bool \<Rightarrow> faults \<Rightarrow> table \<Rightarrow> string \<Rightarrow> js_error option" where
  "step_error attempted fails t label =
     (if attempted then map_option (\<lambda>e. Error (label @ message e)) (fails (Insert t)) else None)"

definition relatedInsertError :: "faults \<Rightarrow> AppCarUpsert \<Rightarrow> js_error option" where
  "relatedInsertError fails carData =
     (case step_error (pricing carData \<noteq> None) fails CarPricingT ''Pricing insert failed: '' of
        Some e \<Rightarrow> Some e
      | None \<Rightarrow>
     (case step_error (images carData \<noteq> []) fails CarImages ''Images insert failed: '' of
        Some e \<Rightarrow> Some e
      | None \<Rightarrow>
     (case step_error (features carData \<noteq> []) fails CarFeatures ''Features insert failed: '' of
        Some e \<Rightarrow> Some e
      | None \<Rightarrow>
          step_error (specifications carData \<noteq> []) fails CarSpecifications
            ''Specifications insert failed: '')))"

section \<open>Example stores and payloads\<close>

definition empty_store :: store where
  "empty_store =
     \<lparr>cars = [], car_pricing = [], car_images = [], car_features = [], car_specifications = [],
      pricing_one_to_one = False, sort_order_column = True, bucket = [], console = [], trace = [],
      next_id = 1, clock = 0\<rparr>"

text \<open>A lowering that turns \<^verbatim>\<open>A\<close>..\<^verbatim>\<open>Z\<close> into \<^verbatim>\<open>a\<close>..\<^verbatim>\<open>z\<close> and nothing else.\<close>

definition ascii_lower :: "js_string \<Rightarrow> js_string" where
  "ascii_lower s = map lower_unit s"

text \<open>A store in which exactly the listed calls fail.\<close>

definition failing :: "call list \<Rightarrow> faults" where
  "failing cs c = (if c \<in> set cs then Some (PostgrestError ''boom'') else None)"

definition demo_payload :: AppCarUpsert where
  "demo_payload =
     \<lparr>name = units ''Tesla Model S!!'', category = ''sedan'', description = Null,
      short_description = Undefined, available = Undefined, featured = Val True, hidden = Null,
      pricing = Some \<lparr>base_price = Some 120\<rparr>,
      images = [\<lparr>url = ''u2'', path = Some ''p2'', is_primary = None, sort_order = Val 2\<rparr>,
                \<lparr>url = ''u0'', path = Some ''p0'', is_primary = None, sort_order = Val 0\<rparr>,
                \<lparr>url = ''u1'', path = Some ''p1'', is_primary = Some True, sort_order = Val 1\<rparr>],
      features = [''GPS''], specifications = [''seats: 5'']\<rparr>"

text \<open>A store with one car, \<^verbatim>\<open>1\<close>, and a row for it in every related table.\<close>

definition one_car_store :: store where
  "one_car_store =
     \<lparr>cars = [\<lparr>c_id = ''1'', c_slug = units ''tesla-model-s'',
                c_name = units ''Tesla Model S!!'',
                c_category = Some ''sedan'', c_description = Some ''A fast car'',
                c_short_description = None,
                c_available = Some True, c_featured = Some True, c_hidden = Some False,
                c_created_by = None, c_created_at = 0\<rparr>],
      car_pricing = [\<lparr>p_id = ''2'', p_car_id = ''1'', p_base_price = Some 120\<rparr>],
      car_images = [\<lparr>url = ''u3'', path = None, is_primary = None, sort_order = Null,
                      i_id = ''3'', i_car_id = ''1''\<rparr>,
                    \<lparr>url = ''u4'', path = Some ''p4'', is_primary = None, sort_order = Val 2,
                      i_id = ''4'', i_car_id = ''1''\<rparr>,
                    \<lparr>url = ''u5'', path = Some ''p5'', is_primary = None, sort_order = Val 1,
                      i_id = ''5'', i_car_id = ''1''\<rparr>],
      car_features = [\<lparr>f_id = ''6'', f_car_id = ''1'', f_data = ''GPS''\<rparr>],
      car_specifications = [\<lparr>sp_id = ''7'', sp_car_id = ''1'', sp_data = ''seats: 5''\<rparr>],
      pricing_one_to_one = False, sort_order_column = True, bucket = [''p4'', ''p5''],
      console = [], trace = [],
      next_id = 8, clock = 1\<rparr>"

text \<open>An update that names no property.\<close>

definition no_updates :: PartialAppCarUpsert where
  "no_updates =
     \<lparr>u_name = None, u_category = None, u_description = Undefined,
      u_short_description = Undefined, u_available = Undefined, u_featured = Undefined,
      u_hidden = Undefined, u_pricing = None, u_images = None, u_features = None,
      u_specifications = None\<rparr>"


text \<open>Five cars of one category: \<^verbatim>\<open>c\<close> is hidden, \<^verbatim>\<open>e\<close> is not available, \<^verbatim>\<open>a\<close> is not featured.\<close>

definition fleet_car :: "uuid \<Rightarrow> bool option \<Rightarrow> bool option \<Rightarrow> bool option \<Rightarrow> nat \<Rightarrow> CarBase" where
  "fleet_car ident av fe hi created =
     \<lparr>c_id = ident, c_slug = units ident, c_name = units ident, c_category = Some ''suv'',
      c_description = Some [], c_short_description = None,
      c_available = av, c_featured = fe, c_hidden = hi, c_created_by = None, c_created_at = created\<rparr>"

definition fleet_store :: store where
  "fleet_store =
     empty_store\<lparr>cars :=
       [fleet_car ''a'' (Some True) (Some False) (Some False) 5,
        fleet_car ''b'' (Some True) (Some True) (Some False) 1,
        fleet_car ''c'' (Some True) (Some True) (Some True) 4,
        fleet_car ''d'' (Some True) (Some True) (Some False) 3,
        fleet_car ''e'' (Some False) (Some True) (Some False) 2]\<rparr>"

section \<open>Properties of the slug generator\<close>

lemma set_replace_runs: "set (replace_runs p s) \<subseteq> insert hyphen (set s)"
  by (induction p s rule: replace_runs.induct) auto

lemma hd_replace_runs:
  "replace_runs (\<lambda>c. c = hyphen) s \<noteq> [] \<Longrightarrow> hd (replace_runs (\<lambda>c. c = hyphen) s) = hd s"
  by (induction "\<lambda>c. c = hyphen" s rule: replace_runs.induct) auto

lemma replace_runs_Nil: "replace_runs p s = [] \<longleftrightarrow> s = []"
  by (induction p s rule: replace_runs.induct) auto

lemma no_adjacent_replace_runs: "\<not> adjacent_hyphens (replace_runs (\<lambda>c. c = hyphen) s)"
proof (induction "\<lambda>c. c = hyphen" s rule: replace_runs.induct)
  case (3 c d cs)
  then show ?case
    using hd_replace_runs[of "d # cs"] replace_runs_Nil[of "\<lambda>c. c = hyphen" "d # cs"]
    by (cases "replace_runs (\<lambda>c. c = hyphen) (d # cs)") (auto split: if_splits)
qed auto

lemma adjacent_iff: "adjacent_hyphens s \<longleftrightarrow> (\<exists>xs ys. s = xs @ [hyphen, hyphen] @ ys)"
proof (induction s rule: adjacent_hyphens.induct)
  case (1 c d cs)
  show ?case
  proof
    assume "adjacent_hyphens (c # d # cs)"
    then consider "c = hyphen \<and> d = hyphen" | "adjacent_hyphens (d # cs)" by auto
    then show "\<exists>xs ys. c # d # cs = xs @ [hyphen, hyphen] @ ys"
    proof cases
      case 1
      then have "c # d # cs = [] @ [hyphen, hyphen] @ cs" by simp
      then show ?thesis by blast
    next
      case 2
      with 1 obtain xs ys where "d # cs = xs @ [hyphen, hyphen] @ ys" by blast
      then have "c # d # cs = (c # xs) @ [hyphen, hyphen] @ ys" by simp
      then show ?thesis by blast
    qed
  next
    assume "\<exists>xs ys. c # d # cs = xs @ [hyphen, hyphen] @ ys"
    then obtain xs ys where e: "c # d # cs = xs @ [hyphen, hyphen] @ ys" by blast
    show "adjacent_hyphens (c # d # cs)"
    proof (cases xs)
      case Nil
      with e show ?thesis by simp
    next
      case (Cons x xs')
      with e have "d # cs = xs' @ [hyphen, hyphen] @ ys" by simp
      then have "\<exists>xs ys. d # cs = xs @ [hyphen, hyphen] @ ys" by blast
      with 1 have "adjacent_hyphens (d # cs)" by blast
      then show ?thesis by simp
    qed
  qed
next
  case (2 c)
  then show ?case by (auto simp: Cons_eq_append_conv)
next
  case 3
  then show ?case by simp
qed

lemma adjacent_suffix: "adjacent_hyphens (dropWhile P s) \<Longrightarrow> adjacent_hyphens s"
  unfolding adjacent_iff
  by (metis append.assoc takeWhile_dropWhile_id)

lemma adjacent_rev: "adjacent_hyphens (rev s) \<longleftrightarrow> adjacent_hyphens s"
proof -
  have "adjacent_hyphens t \<Longrightarrow> adjacent_hyphens (rev t)" for t
  proof -
    assume "adjacent_hyphens t"
    then obtain xs ys where "t = xs @ [hyphen, hyphen] @ ys" unfolding adjacent_iff by blast
    then have "rev t = rev ys @ [hyphen, hyphen] @ rev xs" by simp
    then show ?thesis unfolding adjacent_iff by blast
  qed
  from this[of s] this[of "rev s"] show ?thesis by auto
qed

lemma generateSlug_no_adjacent: "\<not> adjacent_hyphens (generateSlug unicode_lower s)"
  unfolding generateSlug_def trim_end_def trim_start_def
  using adjacent_suffix adjacent_rev no_adjacent_replace_runs by blast

lemma generateSlug_from_lowered:
  assumes "c \<in> set (generateSlug unicode_lower s)"
  shows "c = hyphen \<or> (is_word c \<and> c \<in> set (toLowerCase unicode_lower s))"
proof -
  from assms have "c \<in> set (replace_runs (\<lambda>c. c = hyphen)
       (remove_non_word (replace_runs is_space (toLowerCase unicode_lower s))))"
    unfolding generateSlug_def trim_end_def trim_start_def
    by (auto dest!: set_dropWhileD)
  then have "c = hyphen \<or> c \<in> set (remove_non_word (replace_runs is_space (toLowerCase unicode_lower s)))"
    using set_replace_runs by fastforce
  then consider "c = hyphen" | "is_word c" "c \<in> set (replace_runs is_space (toLowerCase unicode_lower s))"
    by (auto simp: remove_non_word_def)
  then show ?thesis
  proof cases
    case 2
    then have "c = hyphen \<or> c \<in> set (toLowerCase unicode_lower s)" using set_replace_runs by fastforce
    with 2(1) show ?thesis by blast
  qed simp
qed

lemma toLowerCase_not_upper:
  assumes "is_ascii s \<or> (\<forall>c \<in> set (unicode_lower s). \<not> is_upper c)"
    and "c \<in> set (toLowerCase unicode_lower s)"
  shows "\<not> is_upper c"
  using assms by (auto simp: toLowerCase_def lower_unit_def is_upper_def split: if_splits)

lemma trim_end_prefix: "s = trim_end s @ rev (takeWhile (\<lambda>c. c = hyphen) (rev s))"
proof -
  have "rev (takeWhile (\<lambda>c. c = hyphen) (rev s) @ dropWhile (\<lambda>c. c = hyphen) (rev s)) = rev (rev s)"
    by (simp only: takeWhile_dropWhile_id)
  then have "rev (dropWhile (\<lambda>c. c = hyphen) (rev s)) @ rev (takeWhile (\<lambda>c. c = hyphen) (rev s)) = s"
    by (simp only: rev_append rev_rev_ident)
  then show ?thesis by (simp only: trim_end_def)
qed

lemma hd_trim_end: "trim_end s \<noteq> [] \<Longrightarrow> hd (trim_end s) = hd s"
  using trim_end_prefix[of s] by (metis hd_append2)

lemma hd_trim_start: "trim_start s \<noteq> [] \<Longrightarrow> hd (trim_start s) \<noteq> hyphen"
  unfolding trim_start_def using hd_dropWhile by blast

lemma last_trim_end: "trim_end s \<noteq> [] \<Longrightarrow> last (trim_end s) \<noteq> hyphen"
proof -
  assume "trim_end s \<noteq> []"
  then have "dropWhile (\<lambda>c. c = hyphen) (rev s) \<noteq> []" by (simp add: trim_end_def)
  then have "hd (dropWhile (\<lambda>c. c = hyphen) (rev s)) \<noteq> hyphen" using hd_dropWhile by blast
  then show ?thesis by (simp add: trim_end_def last_rev)
qed

lemma generateSlug_hd:
  "generateSlug unicode_lower s \<noteq> [] \<Longrightarrow> hd (generateSlug unicode_lower s) \<noteq> hyphen"
proof -
  assume a: "generateSlug unicode_lower s \<noteq> []"
  define t where "t = trim_start (replace_runs (\<lambda>c. c = hyphen)
       (remove_non_word (replace_runs is_space (toLowerCase unicode_lower s))))"
  have g: "generateSlug unicode_lower s = trim_end t" by (simp add: generateSlug_def t_def)
  with a have "t \<noteq> []" by (auto simp: trim_end_def)
  then have "hd t \<noteq> hyphen" unfolding t_def by (rule hd_trim_start)
  with a g show ?thesis by (simp add: hd_trim_end)
qed

lemma generateSlug_last:
  "generateSlug unicode_lower s \<noteq> [] \<Longrightarrow> last (generateSlug unicode_lower s) \<noteq> hyphen"
  unfolding generateSlug_def by (rule last_trim_end)

lemma generateSlug_tesla:
  "generateSlug unicode_lower (units ''Tesla Model S!!'') = units ''tesla-model-s''"
  by (simp add: generateSlug_def toLowerCase_def is_ascii_def lower_unit_def trim_end_def
      trim_start_def remove_non_word_def units_def is_space_def is_word_def is_lower_word_def
      is_upper_def hyphen_def)

lemma ascii_lower_not_upper: "c \<in> set (ascii_lower s) \<Longrightarrow> \<not> is_upper c"
  by (auto simp: ascii_lower_def lower_unit_def is_upper_def)

text \<open>
  C5. For every string \<open>s\<close> (every sequence of code units) and whatever the lowering of
  the strings outside ASCII is: every character of the slug is a word character or a
  hyphen; the slug neither starts nor ends with a hyphen; no two hyphens stand next to
  each other; the slug of \<^verbatim>\<open>Tesla Model S!!\<close> is \<^verbatim>\<open>tesla-model-s\<close>. The word characters
  of the slug are characters of the lowered string. So when \<open>s\<close> is a string of ASCII
  code units, every character of the slug is a lowercase word character (\<^verbatim>\<open>a\<close>..\<^verbatim>\<open>z\<close>,
  a digit or the underscore) or a hyphen; and so it is for any other \<open>s\<close> when the
  lowering of \<open>s\<close> holds none of \<^verbatim>\<open>A\<close>..\<^verbatim>\<open>Z\<close>, as the result of JavaScript's
  \<^verbatim>\<open>toLowerCase\<close> does (each of them has a lowercase mapping, and no mapping produces
  one).
\<close>

theorem generateSlug_shape:
  "(\<forall>c \<in> set (generateSlug unicode_lower s). is_word c \<or> c = hyphen) \<and>
   (is_ascii s \<or> (\<forall>c \<in> set (unicode_lower s). \<not> is_upper c) \<longrightarrow>
      (\<forall>c \<in> set (generateSlug unicode_lower s). is_lower_word c \<or> c = hyphen)) \<and>
   (generateSlug unicode_lower s \<noteq> [] \<longrightarrow>
      hd (generateSlug unicode_lower s) \<noteq> hyphen \<and> last (generateSlug unicode_lower s) \<noteq> hyphen) \<and>
   (\<nexists>xs ys. generateSlug unicode_lower s = xs @ [hyphen, hyphen] @ ys) \<and>
   generateSlug unicode_lower (units ''Tesla Model S!!'') = units ''tesla-model-s''"
proof -
  have word: "\<forall>c \<in> set (generateSlug unicode_lower s). is_word c \<or> c = hyphen"
    using generateSlug_from_lowered by blast
  have lower: "\<forall>c \<in> set (generateSlug unicode_lower s). is_lower_word c \<or> c = hyphen"
    if "is_ascii s \<or> (\<forall>c \<in> set (unicode_lower s). \<not> is_upper c)"
  proof
    fix c assume "c \<in> set (generateSlug unicode_lower s)"
    from generateSlug_from_lowered[OF this]
    show "is_lower_word c \<or> c = hyphen"
      using toLowerCase_not_upper[where s = s and unicode_lower = unicode_lower and c = c] that
      by (auto simp: is_word_def)
  qed
  have ends: "hd (generateSlug unicode_lower s) \<noteq> hyphen \<and> last (generateSlug unicode_lower s) \<noteq> hyphen"
    if "generateSlug unicode_lower s \<noteq> []"
    using that generateSlug_hd generateSlug_last by blast
  have single: "\<nexists>xs ys. generateSlug unicode_lower s = xs @ [hyphen, hyphen] @ ys"
    using generateSlug_no_adjacent[of unicode_lower s] adjacent_iff[of "generateSlug unicode_lower s"]
    by blast
  from word lower ends single generateSlug_tesla show ?thesis by blast
qed

text \<open>
  The slug of \<^verbatim>\<open>Tesla Model S!!\<close>, a string of ASCII code units; and, with a lowering
  that turns \<^verbatim>\<open>A\<close>..\<^verbatim>\<open>Z\<close> into \<^verbatim>\<open>a\<close>..\<^verbatim>\<open>z\<close>, the slug of a name with a no-break space
  (U+00A0), hyphens at both ends, an underscore and a digit.
\<close>

theorem generateSlug_shape_witness:
  "is_ascii (units ''Tesla Model S!!'') \<and>
   generateSlug ascii_lower (units ''Tesla Model S!!'') = units ''tesla-model-s'' \<and>
   \<not> is_ascii (units ''--My'' @ [160, 32] @ units ''Car_2!--'') \<and>
   generateSlug ascii_lower (units ''--My'' @ [160, 32] @ units ''Car_2!--'') = units ''my-car_2'' \<and>
   is_lower_word (of_char (CHR ''m'')) \<and>
   hd (generateSlug ascii_lower (units ''--My'' @ [160, 32] @ units ''Car_2!--'')) \<noteq> hyphen \<and>
   last (generateSlug ascii_lower (units ''--My'' @ [160, 32] @ units ''Car_2!--'')) \<noteq> hyphen \<and>
   (\<nexists>xs ys. generateSlug ascii_lower (units ''--My'' @ [160, 32] @ units ''Car_2!--'') =
      xs @ [hyphen, hyphen] @ ys)"
proof -
  let ?s = "units ''--My'' @ [160, 32] @ units ''Car_2!--''"
  have a: "is_ascii (units ''Tesla Model S!!'')" "\<not> is_ascii ?s"
    by (simp_all add: is_ascii_def units_def)
  have e: "generateSlug ascii_lower ?s = units ''my-car_2''"
    by (simp add: generateSlug_def toLowerCase_def is_ascii_def ascii_lower_def lower_unit_def
        trim_end_def trim_start_def remove_non_word_def
        units_def is_space_def is_word_def is_lower_word_def is_upper_def hyphen_def)
  have m: "of_char (CHR ''m'') \<in> set (generateSlug ascii_lower ?s)"
    unfolding e by (simp add: units_def)
  have n: "generateSlug ascii_lower ?s \<noteq> []"
    unfolding e by (simp add: units_def)
  have h: "of_char (CHR ''m'') \<noteq> hyphen" by (simp add: hyphen_def)
  have u: "\<forall>c \<in> set (ascii_lower ?s). \<not> is_upper c" using ascii_lower_not_upper by blast
  from generateSlug_shape[where unicode_lower = ascii_lower and s = ?s] a m n h e u
  show ?thesis by blast
qed

section \<open>Properties of createCar\<close>

lemma request_fields [simp]:
  "cars (snd (request fails c s)) = cars s"
  "car_pricing (snd (request fails c s)) = car_pricing s"
  "car_images (snd (request fails c s)) = car_images s"
  "car_features (snd (request fails c s)) = car_features s"
  "car_specifications (snd (request fails c s)) = car_specifications s"
  "pricing_one_to_one (snd (request fails c s)) = pricing_one_to_one s"
  "bucket (snd (request fails c s)) = bucket s"
  "console (snd (request fails c s)) = console s"
  "trace (snd (request fails c s)) = trace s @ [c]"
  "next_id (snd (request fails c s)) = next_id s"
  "clock (snd (request fails c s)) = clock s"
  "fst (request fails c s) = fails c"
  by (simp_all add: request_def)

lemma createPricing_Inl:
  "(fst (createPricing fails carData carId s) = Inl e) =
   (step_error (pricing carData \<noteq> None) fails CarPricingT ''Pricing insert failed: '' = Some e)"
  by (auto simp: createPricing_def insert_pricing_def request_def step_error_def Let_def
      split: option.splits)

lemma createImages_Inl:
  "(fst (createImages fails carData carId s) = Inl e) =
   (step_error (images carData \<noteq> []) fails CarImages ''Images insert failed: '' = Some e)"
  by (auto simp: createImages_def insert_images_def request_def step_error_def Let_def
      split: option.splits)

lemma createFeatures_Inl:
  "(fst (createFeatures fails carData carId s) = Inl e) =
   (step_error (features carData \<noteq> []) fails CarFeatures ''Features insert failed: '' = Some e)"
  by (auto simp: createFeatures_def insert_features_def request_def step_error_def Let_def
      split: option.splits)

lemma createSpecifications_Inl:
  "(fst (createSpecifications fails carData carId s) = Inl e) =
   (step_error (specifications carData \<noteq> []) fails CarSpecifications
      ''Specifications insert failed: '' = Some e)"
  by (auto simp: createSpecifications_def insert_specifications_def request_def step_error_def Let_def
      split: option.splits)

lemma not_Inl_None: "(\<And>e. (r = Inl e) = (x = Some e)) \<Longrightarrow> r = Inr y \<Longrightarrow> x = None"
  by (cases x) auto

lemma createPricing_frame [simp]:
  "cars (snd (createPricing fails carData carId s)) = cars s"
  "console (snd (createPricing fails carData carId s)) = console s"
  by (simp_all add: createPricing_def insert_pricing_def request_def Let_def split: option.splits)

lemma createImages_frame [simp]:
  "cars (snd (createImages fails carData carId s)) = cars s"
  "console (snd (createImages fails carData carId s)) = console s"
  by (simp_all add: createImages_def insert_images_def request_def Let_def split: option.splits)

lemma createFeatures_frame [simp]:
  "cars (snd (createFeatures fails carData carId s)) = cars s"
  "console (snd (createFeatures fails carData carId s)) = console s"
  by (simp_all add: createFeatures_def insert_features_def request_def Let_def split: option.splits)

lemma createSpecifications_frame [simp]:
  "cars (snd (createSpecifications fails carData carId s)) = cars s"
  "console (snd (createSpecifications fails carData carId s)) = console s"
  by (simp_all add: createSpecifications_def insert_specifications_def request_def Let_def
      split: option.splits)

lemma createRelated_frame [simp]:
  "cars (snd (createRelated fails carData newCar s)) = cars s"
  "console (snd (createRelated fails carData newCar s)) = console s"
  by (simp_all add: createRelated_def split_beta split: sum.splits)

lemma createRelated_Inl:
  "(fst (createRelated fails carData newCar s) = Inl e) = (relatedInsertError fails carData = Some e)"
proof -
  let ?p = "createPricing fails carData (c_id newCar) s"
  let ?i = "createImages fails carData (c_id newCar) (snd ?p)"
  let ?f = "createFeatures fails carData (c_id newCar) (snd ?i)"
  let ?x = "createSpecifications fails carData (c_id newCar) (snd ?f)"
  show ?thesis
  proof (cases "fst ?p")
    case (Inl a)
    then show ?thesis
      using createPricing_Inl[of fails carData "c_id newCar" s a]
      by (auto simp: createRelated_def relatedInsertError_def split_beta)
  next
    case p: (Inr a)
    have pn: "step_error (pricing carData \<noteq> None) fails CarPricingT ''Pricing insert failed: '' = None"
      using not_Inl_None[OF createPricing_Inl p] .
    show ?thesis
    proof (cases "fst ?i")
      case (Inl b)
      then show ?thesis
        using p pn createImages_Inl[of fails carData "c_id newCar" "snd ?p" b]
        by (auto simp: createRelated_def relatedInsertError_def split_beta)
    next
      case i: (Inr b)
      have "step_error (images carData \<noteq> []) fails CarImages ''Images insert failed: '' = None"
        using not_Inl_None[OF createImages_Inl i] .
      note n2 = this
      show ?thesis
      proof (cases "fst ?f")
        case (Inl c)
        then show ?thesis
          using p pn i n2 createFeatures_Inl[of fails carData "c_id newCar" "snd ?i" c]
          by (auto simp: createRelated_def relatedInsertError_def split_beta)
      next
        case f: (Inr c)
        have n3: "step_error (features carData \<noteq> []) fails CarFeatures ''Features insert failed: '' = None"
          using not_Inl_None[OF createFeatures_Inl f] .
        show ?thesis
          using p pn i n2 f n3 createSpecifications_Inl[of fails carData "c_id newCar" "snd ?f" e]
          by (auto simp: createRelated_def relatedInsertError_def split_beta split: sum.splits)
      qed
    qed
  qed
qed

lemma createRelated_a_base:
  "fst (createRelated fails carData newCar s) = Inr car \<Longrightarrow> a_base car = newCar"
  by (auto simp: createRelated_def split_beta split: sum.splits)

lemma uuid_of_1: "uuid_of 1 = ''1''"
  by code_simp

lemma insert_car_unfold:
  "insert_car fails payload s =
     (case fails (Insert Cars) of
        Some e \<Rightarrow> ((Some e, None), s\<lparr>trace := trace s @ [Insert Cars]\<rparr>)
      | None \<Rightarrow>
          ((None, Some \<lparr>c_id = uuid_of (next_id s),
                      c_slug = ci_slug payload,
                      c_name = ci_name payload,
                      c_category = Some (ci_category payload),
                      c_description = Some (ci_description payload),
                      c_short_description =
                        (case ci_short_description payload of Val v \<Rightarrow> Some v | _ \<Rightarrow> None),
                      c_available = Some (ci_available payload),
                      c_featured = Some (ci_featured payload),
                      c_hidden = Some (ci_hidden payload),
                      c_created_by = ci_created_by payload,
                      c_created_at = clock s\<rparr>),
           s\<lparr>trace := trace s @ [Insert Cars],
             cars := cars s @ [\<lparr>c_id = uuid_of (next_id s),
                      c_slug = ci_slug payload,
                      c_name = ci_name payload,
                      c_category = Some (ci_category payload),
                      c_description = Some (ci_description payload),
                      c_short_description =
                        (case ci_short_description payload of Val v \<Rightarrow> Some v | _ \<Rightarrow> None),
                      c_available = Some (ci_available payload),
                      c_featured = Some (ci_featured payload),
                      c_hidden = Some (ci_hidden payload),
                      c_created_by = ci_created_by payload,
                      c_created_at = clock s\<rparr>],
             next_id := Suc (next_id s), clock := Suc (clock s)\<rparr>))"
  by (simp add: insert_car_def request_def Let_def split: option.splits)

lemma relatedInsertError_is_Error:
  "relatedInsertError fails carData = Some error \<Longrightarrow> instanceof_Error error"
  by (auto simp: relatedInsertError_def step_error_def split: option.splits if_splits)

lemma delete_car_fields [simp]:
  "cars (snd (delete_car fails carId s)) =
     (if fails (Delete Cars) = None then filter (\<lambda>r. c_id r \<noteq> carId) (cars s) else cars s)"
  "console (snd (delete_car fails carId s)) = console s"
  "trace (snd (delete_car fails carId s)) = trace s @ [Delete Cars]"
  "fst (delete_car fails carId s) = fails (Delete Cars)"
  by (auto simp: delete_car_def request_def split: option.splits)

lemma console_error_fields [simp]:
  "cars (console_error args s) = cars s"
  "car_images (console_error args s) = car_images s"
  "car_pricing (console_error args s) = car_pricing s"
  "car_features (console_error args s) = car_features s"
  "car_specifications (console_error args s) = car_specifications s"
  "console (console_error args s) = console s @ [args]"
  "trace (console_error args s) = trace s"
  "bucket (console_error args s) = bucket s"
  "next_id (console_error args s) = next_id s"
  "pricing_one_to_one (console_error args s) = pricing_one_to_one s"
  by (simp_all add: console_error_def)

text \<open>
  C7. A \<^verbatim>\<open>createCar\<close> call whose payload has the empty name fails with the validation
  error and returns the store as it was: no table, no stored object and no log entry
  has changed, and the trace of store calls has not grown, so no call was made.
\<close>

theorem createCar_empty_name: "name carData = [] \<Longrightarrow>
   createCar unicode_lower fails handleSupabaseError s carData userId =
     (Inl (Error ''Car name is required to create a car.''), s)"
  by (simp add: createCar_def)

theorem createCar_empty_name_witness:
  "name (demo_payload\<lparr>name := []\<rparr>) = [] \<and>
   createCar ascii_lower (failing []) message empty_store (demo_payload\<lparr>name := []\<rparr>) None =
     (Inl (Error ''Car name is required to create a car.''), empty_store) \<and>
   trace empty_store = []"
  using createCar_empty_name[where carData = "demo_payload\<lparr>name := []\<rparr>" and unicode_lower = ascii_lower
      and fails = "failing []" and handleSupabaseError = message and s = empty_store and userId = None]
  by (simp add: empty_store_def)

text \<open>
  C10. Let the payload's description be \<^verbatim>\<open>null\<close> or left out. The payload built for
  the root insert has the empty string as description, and every car that \<^verbatim>\<open>createCar\<close>
  returns has it and is a row of the table. When the name is not empty and the store
  accepts the root insert, \<^verbatim>\<open>createCar\<close> inserts a root record \<open>newCar\<close> whose
  description is the empty string: if no related insert fails, the call returns a car
  whose root record is \<open>newCar\<close>, and the table of cars is the old one followed by
  \<open>newCar\<close>; if a related insert fails, the table is the old one followed by \<open>newCar\<close>,
  less the rows that the compensating deletion removed.
\<close>

theorem createCar_description_default:
  assumes "description carData = Null \<or> description carData = Undefined"
  shows "ci_description (baseCarPayload unicode_lower carData userId) = [] \<and>
     (\<forall>car s'. createCar unicode_lower fails handleSupabaseError s carData userId = (Inr car, s') \<longrightarrow>
        c_description (a_base car) = Some [] \<and> a_base car \<in> set (cars s')) \<and>
     (name carData \<noteq> [] \<and> fails (Insert Cars) = None \<longrightarrow>
        (\<exists>newCar.
           c_id newCar = uuid_of (next_id s) \<and>
           c_description newCar = Some [] \<and>
           (relatedInsertError fails carData = None \<longrightarrow>
              (\<exists>car. fst (createCar unicode_lower fails handleSupabaseError s carData userId) = Inr car \<and>
                     a_base car = newCar) \<and>
              cars (snd (createCar unicode_lower fails handleSupabaseError s carData userId)) =
                cars s @ [newCar]) \<and>
           (relatedInsertError fails carData \<noteq> None \<longrightarrow>
              cars (snd (createCar unicode_lower fails handleSupabaseError s carData userId)) =
                (if fails (Delete Cars) = None
                 then filter (\<lambda>r. c_id r \<noteq> c_id newCar) (cars s @ [newCar])
                 else cars s @ [newCar]))))"
proof -
  let ?run = "createCar unicode_lower fails handleSupabaseError s carData userId"
  have p: "ci_description (baseCarPayload unicode_lower carData userId) = []"
    using assms by (auto simp: baseCarPayload_def nullish_def)
  have i: "c_description row = Some [] \<and> cars s1 = cars s @ [row]"
    if "insert_car fails (baseCarPayload unicode_lower carData userId) s = ((None, Some row), s1)" for row s1
    using that p by (auto simp: insert_car_unfold split: option.splits)
  have returned: "c_description (a_base car) = Some [] \<and> a_base car \<in> set (cars s')"
    if cc: "?run = (Inr car, s')" for car s'
  proof -
    from cc have n: "name carData \<noteq> []" by (auto simp: createCar_def)
    obtain e r s1 where ins: "insert_car fails (baseCarPayload unicode_lower carData userId) s = ((e, r), s1)"
      by (metis surj_pair)
    from cc n ins obtain newCar where r: "e = None" "r = Some newCar"
      by (cases e; cases r) (auto simp: createCar_def)
    let ?r = "createRelated fails carData newCar s1"
    from cc n ins r have "fst ?r = Inr car" "s' = snd ?r"
      by (auto simp: createCar_def split_beta split: sum.splits)
    then have "a_base car = newCar" "cars s' = cars s1"
      by (simp_all add: createRelated_a_base)
    with i[of newCar s1] ins r show ?thesis by simp
  qed
  have inserted: "\<exists>newCar.
           c_id newCar = uuid_of (next_id s) \<and>
           c_description newCar = Some [] \<and>
           (relatedInsertError fails carData = None \<longrightarrow>
              (\<exists>car. fst ?run = Inr car \<and> a_base car = newCar) \<and> cars (snd ?run) = cars s @ [newCar]) \<and>
           (relatedInsertError fails carData \<noteq> None \<longrightarrow>
              cars (snd ?run) =
                (if fails (Delete Cars) = None
                 then filter (\<lambda>r. c_id r \<noteq> c_id newCar) (cars s @ [newCar])
                 else cars s @ [newCar]))"
    if n: "name carData \<noteq> []" and f: "fails (Insert Cars) = None"
  proof -
    obtain newCar s1 where
      ins: "insert_car fails (baseCarPayload unicode_lower carData userId) s = ((None, Some newCar), s1)"
      and id: "c_id newCar = uuid_of (next_id s)"
      using f by (simp add: insert_car_unfold)
    from i[OF ins] have d: "c_description newCar = Some []" and c1: "cars s1 = cars s @ [newCar]"
      by simp_all
    let ?r = "createRelated fails carData newCar s1"
    have ok: "(\<exists>car. fst ?run = Inr car \<and> a_base car = newCar) \<and> cars (snd ?run) = cars s @ [newCar]"
      if none: "relatedInsertError fails carData = None"
    proof -
      have "fst ?r \<noteq> Inl e" for e
        using none by (simp add: createRelated_Inl)
      then obtain car where r: "fst ?r = Inr car"
        by (cases "fst ?r") auto
      then have b: "a_base car = newCar"
        by (rule createRelated_a_base)
      have run: "?run = (Inr car, snd ?r)"
        using n ins r by (simp add: createCar_def split_beta)
      have "cars (snd ?run) = cars s @ [newCar]"
        by (simp add: run c1)
      with run b show ?thesis by simp
    qed
    have failed: "cars (snd ?run) =
            (if fails (Delete Cars) = None
             then filter (\<lambda>r. c_id r \<noteq> c_id newCar) (cars s @ [newCar])
             else cars s @ [newCar])"
      if some: "relatedInsertError fails carData \<noteq> None"
    proof -
      from some obtain error where "relatedInsertError fails carData = Some error" by blast
      then have l: "fst ?r = Inl error" by (simp add: createRelated_Inl)
      have "snd ?run =
          snd (delete_car fails (c_id newCar)
                 (console_error [Str ''Error inserting related data, attempting cleanup for car:'',
                                 Str (c_id newCar), Err (Some error)] (snd ?r)))"
        using n ins l by (simp add: createCar_def split_beta)
      then show ?thesis by (simp add: c1)
    qed
    from id d ok failed show ?thesis by auto
  qed
  from p returned inserted show ?thesis by blast
qed

text \<open>
  The description of the example payload is \<^verbatim>\<open>null\<close>, and every call succeeds: the car
  returned and the one row of the table have the description \<^verbatim>\<open>""\<close>. The same holds
  when the description is left out.
\<close>

theorem createCar_description_default_witness:
  "description demo_payload = Null \<and>
   map_sum id (c_description \<circ> a_base)
     (fst (createCar ascii_lower (failing []) message empty_store demo_payload None)) = Inr (Some []) \<and>
   map c_description
     (cars (snd (createCar ascii_lower (failing []) message empty_store demo_payload None))) = [Some []] \<and>
   map c_description
     (cars (snd (createCar ascii_lower (failing []) message empty_store
                   (demo_payload\<lparr>description := Undefined\<rparr>) None))) = [Some []]"
proof -
  let ?absent = "demo_payload\<lparr>description := Undefined\<rparr>"
  have d: "description demo_payload = Null \<or> description demo_payload = Undefined"
    "description ?absent = Null \<or> description ?absent = Undefined"
    by (simp_all add: demo_payload_def)
  have n: "name demo_payload \<noteq> []" "name ?absent \<noteq> []"
    by (simp_all add: demo_payload_def units_def)
  have f: "failing [] (Insert Cars) = None" by (simp add: failing_def)
  have r: "relatedInsertError (failing []) demo_payload = None"
    "relatedInsertError (failing []) ?absent = None"
    by (simp_all add: relatedInsertError_def step_error_def failing_def demo_payload_def)
  have c: "cars empty_store = []" by (simp add: empty_store_def)
  from createCar_description_default[where carData = demo_payload and fails = "failing []"
      and s = empty_store and unicode_lower = ascii_lower and handleSupabaseError = message
      and userId = None, OF d(1)] n(1) f r(1) c
  obtain newCar car where 1: "c_description newCar = Some []"
    "fst (createCar ascii_lower (failing []) message empty_store demo_payload None) = Inr car"
    "a_base car = newCar"
    "cars (snd (createCar ascii_lower (failing []) message empty_store demo_payload None)) = [newCar]"
    by auto
  from createCar_description_default[where carData = ?absent and fails = "failing []"
      and s = empty_store and unicode_lower = ascii_lower and handleSupabaseError = message
      and userId = None, OF d(2)] n(2) f r(2) c
  obtain newCar' where 2: "c_description newCar' = Some []"
    "cars (snd (createCar ascii_lower (failing []) message empty_store ?absent None)) = [newCar']"
    by auto
  from 1 2 show ?thesis by (simp add: demo_payload_def)
qed

lemma createCar_catch_unfold:
  assumes "name carData \<noteq> []"
    and "fails (Insert Cars) = None"
    and "relatedInsertError fails carData = Some error"
  shows "\<exists>newCar s1.
     c_id newCar = uuid_of (next_id s) \<and> cars s1 = cars s @ [newCar] \<and> console s1 = console s \<and>
     createCar unicode_lower fails handleSupabaseError s carData userId =
       (Inl (Error (handleSupabaseError error)),
        snd (delete_car fails (c_id newCar)
               (console_error [Str ''Error inserting related data, attempting cleanup for car:'',
                               Str (c_id newCar), Err (Some error)]
                  (snd (createRelated fails carData newCar s1)))))"
proof -
  obtain newCar s1 where ins: "insert_car fails (baseCarPayload unicode_lower carData userId) s = ((None, Some newCar), s1)"
    and id: "c_id newCar = uuid_of (next_id s)" and c1: "cars s1 = cars s @ [newCar]"
    and l1: "console s1 = console s"
    using assms(2) by (simp add: insert_car_unfold)
  let ?r = "createRelated fails carData newCar s1"
  have f: "fst ?r = Inl error" using assms(3) by (simp add: createRelated_Inl)
  have e: "rethrow handleSupabaseError fb error = Error (handleSupabaseError error)" for fb
    using relatedInsertError_is_Error[OF assms(3)] by (simp add: rethrow_def)
  have "createCar unicode_lower fails handleSupabaseError s carData userId =
     (Inl (Error (handleSupabaseError error)),
      snd (delete_car fails (c_id newCar)
             (console_error [Str ''Error inserting related data, attempting cleanup for car:'',
                             Str (c_id newCar), Err (Some error)] (snd ?r))))"
    using assms(1) ins f e by (simp add: createCar_def split_beta)
  with id c1 l1 show ?thesis by blast
qed

text \<open>
  C1, as the code has it. When the name is not empty, the root insert succeeds and a
  related insert fails with \<open>error\<close>, \<^verbatim>\<open>createCar\<close> logs \<open>error\<close>, calls the store to
  delete the new root record (the last call of the trace) and throws \<open>error\<close>, translated
  by \<^verbatim>\<open>handleSupabaseError\<close>. The result and the log are the same whether the
  deletion fails or not: a failed deletion is not thrown and leaves no log entry. When
  the deletion succeeds no car with the new identifier is left; when it fails the new
  root record stays.
\<close>

theorem createCar_related_failure:
  assumes "name carData \<noteq> []"
    and "fails (Insert Cars) = None"
    and "relatedInsertError fails carData = Some error"
  shows "\<exists>newCar.
     c_id newCar = uuid_of (next_id s) \<and>
     fst (createCar unicode_lower fails handleSupabaseError s carData userId) = Inl (Error (handleSupabaseError error)) \<and>
     last (trace (snd (createCar unicode_lower fails handleSupabaseError s carData userId))) = Delete Cars \<and>
     cars (snd (createCar unicode_lower fails handleSupabaseError s carData userId)) =
       (if fails (Delete Cars) = None
        then filter (\<lambda>r. c_id r \<noteq> c_id newCar) (cars s @ [newCar])
        else cars s @ [newCar]) \<and>
     console (snd (createCar unicode_lower fails handleSupabaseError s carData userId)) =
       console s @ [[Str ''Error inserting related data, attempting cleanup for car:'',
                     Str (c_id newCar), Err (Some error)]]"
proof -
  from createCar_catch_unfold[OF assms, where s = s and handleSupabaseError = handleSupabaseError
      and userId = userId and unicode_lower = unicode_lower]
  obtain newCar s1 where new: "c_id newCar = uuid_of (next_id s)"
    and root: "cars s1 = cars s @ [newCar]" "console s1 = console s"
    and run: "createCar unicode_lower fails handleSupabaseError s carData userId =
       (Inl (Error (handleSupabaseError error)),
        snd (delete_car fails (c_id newCar)
               (console_error [Str ''Error inserting related data, attempting cleanup for car:'',
                               Str (c_id newCar), Err (Some error)]
                  (snd (createRelated fails carData newCar s1)))))"
    by blast
  have thrown: "fst (createCar unicode_lower fails handleSupabaseError s carData userId) =
      Inl (Error (handleSupabaseError error))"
    by (simp add: run)
  have deleted: "last (trace (snd (createCar unicode_lower fails handleSupabaseError s carData userId))) = Delete Cars"
    by (simp add: run)
  have table: "cars (snd (createCar unicode_lower fails handleSupabaseError s carData userId)) =
       (if fails (Delete Cars) = None
        then filter (\<lambda>r. c_id r \<noteq> c_id newCar) (cars s @ [newCar])
        else cars s @ [newCar])"
    by (simp add: run root)
  have logged: "console (snd (createCar unicode_lower fails handleSupabaseError s carData userId)) =
       console s @ [[Str ''Error inserting related data, attempting cleanup for car:'',
                     Str (c_id newCar), Err (Some error)]]"
    by (simp add: run root)
  from new thrown deleted table logged show ?thesis by blast
qed

theorem createCar_related_failure_witness:
  "fst (createCar ascii_lower (failing [Insert CarFeatures]) message empty_store demo_payload None) =
     Inl (Error ''Features insert failed: boom'') \<and>
   last (trace (snd (createCar ascii_lower (failing [Insert CarFeatures]) message empty_store demo_payload None))) = Delete Cars \<and>
   cars (snd (createCar ascii_lower (failing [Insert CarFeatures]) message empty_store demo_payload None)) = []"
proof -
  have 1: "name demo_payload \<noteq> []" by (simp add: demo_payload_def units_def)
  have 2: "failing [Insert CarFeatures] (Insert Cars) = None" by (simp add: failing_def)
  have 3: "relatedInsertError (failing [Insert CarFeatures]) demo_payload =
             Some (Error ''Features insert failed: boom'')"
    by (simp add: relatedInsertError_def step_error_def failing_def demo_payload_def)
  have 4: "failing [Insert CarFeatures] (Delete Cars) = None" by (simp add: failing_def)
  have 5: "cars empty_store = []" by (simp add: empty_store_def)
  from createCar_related_failure[OF 1 2 3, where s = empty_store and handleSupabaseError = message
      and userId = None and unicode_lower = ascii_lower] 4 5
  show ?thesis by auto
qed

text \<open>
  The features insert fails, and so does the deletion of the root record: the car stays
  in the table, and the log holds only the entry written before the deletion was tried.
\<close>

theorem createCar_cleanup_failure_not_logged:
  "console (snd (createCar ascii_lower (failing [Insert CarFeatures, Delete Cars]) message empty_store demo_payload None)) =
     [[Str ''Error inserting related data, attempting cleanup for car:'', Str ''1'',
       Err (Some (Error ''Features insert failed: boom''))]] \<and>
   map c_id (cars (snd (createCar ascii_lower (failing [Insert CarFeatures, Delete Cars]) message empty_store demo_payload None))) = [''1''] \<and>
   last (trace (snd (createCar ascii_lower (failing [Insert CarFeatures, Delete Cars]) message empty_store demo_payload None))) =
     Delete Cars"
proof -
  let ?fails = "failing [Insert CarFeatures, Delete Cars]"
  have 1: "name demo_payload \<noteq> []" by (simp add: demo_payload_def units_def)
  have 2: "?fails (Insert Cars) = None" by (simp add: failing_def)
  have 3: "relatedInsertError ?fails demo_payload = Some (Error ''Features insert failed: boom'')"
    by (simp add: relatedInsertError_def step_error_def failing_def demo_payload_def)
  have 4: "?fails (Delete Cars) \<noteq> None" by (simp add: failing_def)
  have 5: "cars empty_store = []" "console empty_store = []" "next_id empty_store = 1"
    by (simp_all add: empty_store_def)
  from createCar_catch_unfold[OF 1 2 3, where s = empty_store and handleSupabaseError = message
      and userId = None and unicode_lower = ascii_lower]
  obtain newCar s1 where new: "c_id newCar = uuid_of (next_id empty_store)"
    and root: "cars s1 = cars empty_store @ [newCar]" "console s1 = console empty_store"
    and run: "createCar ascii_lower ?fails message empty_store demo_payload None =
       (Inl (Error (message (Error ''Features insert failed: boom''))),
        snd (delete_car ?fails (c_id newCar)
               (console_error [Str ''Error inserting related data, attempting cleanup for car:'',
                               Str (c_id newCar), Err (Some (Error ''Features insert failed: boom''))]
                  (snd (createRelated ?fails demo_payload newCar s1)))))"
    by blast
  from new 5 uuid_of_1 have "c_id newCar = ''1''" by simp
  with 4 5 root show ?thesis by (simp add: run)
qed

section \<open>Properties of deleteCar\<close>

lemma delete_field_lemmas [simp]:
  "cars (snd (delete_pricing fails carId s)) = cars s"
  "cars (snd (delete_features fails carId s)) = cars s"
  "cars (snd (delete_specifications fails carId s)) = cars s"
  "cars (snd (delete_images fails carId s)) = cars s"
  "car_features (snd (delete_pricing fails carId s)) = car_features s"
  "car_features (snd (delete_features fails carId s)) =
     (if fails (Delete CarFeatures) = None then filter (\<lambda>r. f_car_id r \<noteq> carId) (car_features s)
      else car_features s)"
  "car_features (snd (delete_specifications fails carId s)) = car_features s"
  "car_features (snd (delete_images fails carId s)) = car_features s"
  by (auto simp: delete_pricing_def delete_features_def delete_specifications_def delete_images_def
      request_def split: option.splits)

lemma deleteCar_unfold:
  assumes "fails (Select CarImages ''id, path'') = None" and "fails (Delete Cars) = None"
  shows "deleteCar fails handleSupabaseError s carId =
    (let s1 = snd (select_images fails carId s);
         paths = truthy_paths (filter (\<lambda>i. i_car_id i = carId) (car_images s));
         s3 = snd (delete_car fails carId (snd (deleteRelated fails carId s1)))
     in if paths \<noteq> [] then
          (case storage_remove fails paths s3 of
             (Some storageError, s4) \<Rightarrow>
               (Inr True,
                console_error [Str ''Error deleting images from storage after DB deletion:'',
                               Err (Some storageError)] s4)
           | (None, s4) \<Rightarrow> (Inr True, s4))
        else (Inr True, s3))"
  using assms
  by (simp add: deleteCar_def select_images_def delete_car_def request_def Let_def split_beta
      split: option.splits)

lemma select_images_fields [simp]:
  "cars (snd (select_images fails carId s)) = cars s"
  "car_images (snd (select_images fails carId s)) = car_images s"
  "car_features (snd (select_images fails carId s)) = car_features s"
  "console (snd (select_images fails carId s)) = console s"
  "trace (snd (select_images fails carId s)) = trace s @ [Select CarImages ''id, path'']"
  by (simp_all add: select_images_def request_def split: option.splits)

lemma storage_remove_fields [simp]:
  "cars (snd (storage_remove fails paths s)) = cars s"
  "car_images (snd (storage_remove fails paths s)) = car_images s"
  "car_features (snd (storage_remove fails paths s)) = car_features s"
  "console (snd (storage_remove fails paths s)) = console s"
  "trace (snd (storage_remove fails paths s)) = trace s @ [StorageRemove paths]"
  "fst (storage_remove fails paths s) = fails (StorageRemove paths)"
  by (simp_all add: storage_remove_def request_def split: option.splits)

lemma deleteRelated_fields [simp]:
  "cars (snd (deleteRelated fails carId s)) = cars s"
  "car_features (snd (deleteRelated fails carId s)) =
     (if fails (Delete CarFeatures) = None then filter (\<lambda>r. f_car_id r \<noteq> carId) (car_features s)
      else car_features s)"
  by (simp_all add: deleteRelated_def split_beta)

lemma deleteCar_proceeds:
  assumes "fails (Select CarImages ''id, path'') = None" and "fails (Delete Cars) = None"
  shows "fst (deleteCar fails handleSupabaseError s carId) = Inr True \<and>
     cars (snd (deleteCar fails handleSupabaseError s carId)) = filter (\<lambda>r. c_id r \<noteq> carId) (cars s) \<and>
     car_features (snd (deleteCar fails handleSupabaseError s carId)) =
       (if fails (Delete CarFeatures) = None then filter (\<lambda>r. f_car_id r \<noteq> carId) (car_features s)
        else car_features s)"
proof -
  have del: "car_features (snd (delete_car fails carId t)) = car_features t" for t
    by (simp add: delete_car_def request_def split: option.splits)
  show ?thesis
    unfolding deleteCar_unfold[OF assms] Let_def
    using assms(2) by (simp add: split_beta del split: option.splits)
qed

text \<open>
  C2. The delete of the features of car \<^verbatim>\<open>1\<close> fails. \<^verbatim>\<open>deleteCar\<close> does not read the
  responses of the four related deletes, goes on to delete the root record and reports
  success: the car is gone and its feature row is still there.
\<close>

theorem deleteCar_ignores_related_failure:
  "map c_id (cars one_car_store) = [''1''] \<and>
   fst (deleteCar (failing [Delete CarFeatures]) message one_car_store ''1'') = Inr True \<and>
   cars (snd (deleteCar (failing [Delete CarFeatures]) message one_car_store ''1'')) = [] \<and>
   car_features (snd (deleteCar (failing [Delete CarFeatures]) message one_car_store ''1'')) =
     [\<lparr>f_id = ''6'', f_car_id = ''1'', f_data = ''GPS''\<rparr>]"
proof -
  have 1: "failing [Delete CarFeatures] (Select CarImages ''id, path'') = None"
    and 2: "failing [Delete CarFeatures] (Delete Cars) = None"
    and 3: "failing [Delete CarFeatures] (Delete CarFeatures) \<noteq> None"
    by (simp_all add: failing_def)
  show ?thesis
    using deleteCar_proceeds[OF 1 2, of message one_car_store "''1''"] 3
    by (simp add: one_car_store_def)
qed

section \<open>Properties of updateCar\<close>

lemma getAssembled_fields [simp]:
  "cars (snd (getAssembled fails handleSupabaseError m l fb s)) = cars s"
  "car_images (snd (getAssembled fails handleSupabaseError m l fb s)) = car_images s"
  "car_pricing (snd (getAssembled fails handleSupabaseError m l fb s)) = car_pricing s"
  "car_features (snd (getAssembled fails handleSupabaseError m l fb s)) = car_features s"
  "car_specifications (snd (getAssembled fails handleSupabaseError m l fb s)) = car_specifications s"
  by (simp_all add: getAssembled_def select_cars_def request_def split_beta
      split: option.splits sum.splits)

lemma getCarById_fields [simp]:
  "cars (snd (getCarById fails handleSupabaseError s ident)) = cars s"
  "car_images (snd (getCarById fails handleSupabaseError s ident)) = car_images s"
  by (simp_all add: getCarById_def)

lemma updatePricing_fields [simp]:
  "cars (snd (updatePricing fails carId updates s)) = cars s"
  "car_images (snd (updatePricing fails carId updates s)) = car_images s"
  "console (snd (updatePricing fails carId updates s)) = console s"
  by (simp_all add: updatePricing_def upsert_pricing_def request_def split_beta
      split: option.splits)

lemma updateFeatures_fields [simp]:
  "cars (snd (updateFeatures fails carId updates s)) = cars s"
  "car_images (snd (updateFeatures fails carId updates s)) = car_images s"
  by (simp_all add: updateFeatures_def delete_features_def insert_features_def request_def
      split_beta Let_def split: option.splits sum.splits)

lemma updateFeatures_grows:
  "set (trace s) \<subseteq> set (trace (snd (updateFeatures fails carId updates s)))"
  "set (console s) \<subseteq> set (console (snd (updateFeatures fails carId updates s)))"
  by (auto simp: updateFeatures_def delete_features_def insert_features_def request_def
      split_beta Let_def split: option.splits sum.splits)

lemma updateSpecifications_fields [simp]:
  "cars (snd (updateSpecifications fails carId updates s)) = cars s"
  "car_images (snd (updateSpecifications fails carId updates s)) = car_images s"
  by (simp_all add: updateSpecifications_def delete_specifications_def insert_specifications_def
      request_def split_beta Let_def split: option.splits sum.splits)

lemma updateSpecifications_grows:
  "set (trace s) \<subseteq> set (trace (snd (updateSpecifications fails carId updates s)))"
  "set (console s) \<subseteq> set (console (snd (updateSpecifications fails carId updates s)))"
  by (auto simp: updateSpecifications_def delete_specifications_def insert_specifications_def
      request_def split_beta Let_def split: option.splits sum.splits)

lemma getCarById_grows:
  "set (trace s) \<subseteq> set (trace (snd (getCarById fails handleSupabaseError s ident)))"
  "set (console s) \<subseteq> set (console (snd (getCarById fails handleSupabaseError s ident)))"
  by (auto simp: getCarById_def getAssembled_def select_cars_def request_def console_error_def
      split_beta split: option.splits sum.splits)

lemma removeImages_cars [simp]:
  "cars (snd (removeImages fails toDelete s)) = cars s"
  by (simp add: removeImages_def delete_images_in_def storage_remove_def request_def console_error_def
      split_beta Let_def split: option.splits)

lemma upsert_images_cars [simp]:
  "cars (snd (upsert_images fails carId imgs s)) = cars s"
  by (simp add: upsert_images_def request_def split_beta split: option.splits)

lemma updateImages_cars [simp]:
  "cars (snd (updateImages fails carId updates s)) = cars s"
  by (simp add: updateImages_def select_images_def request_def split_beta
      split: option.splits sum.splits)

lemma and_then_snd:
  "snd (and_then r f) = (if fst r = None then snd (f (snd r)) else snd r)"
  by (cases r) (auto simp: and_then_def split: option.splits)

lemma and_then_fst:
  "fst (and_then r f) = (if fst r = None then fst (f (snd r)) else fst r)"
  by (cases r) (auto simp: and_then_def split: option.splits)

lemma updateRelated_cars [simp]:
  "cars (snd (updateRelated fails carId updates s)) = cars s"
  by (simp add: updateRelated_def and_then_snd and_then_fst)

lemma updateCar_cars:
  "cars (snd (updateCar unicode_lower fails handleSupabaseError s carId updates)) = cars (snd (updateBase unicode_lower fails carId updates s))"
  by (simp add: updateCar_def split_beta split: option.splits sum.splits)

lemma updateBase_cars:
  "cars (snd (updateBase unicode_lower fails carId updates s)) =
     (if 0 < keys_length (baseCarUpdatePayload unicode_lower updates) \<and> fails (Update Cars) = None
      then map (\<lambda>r. if c_id r = carId then apply_update (baseCarUpdatePayload unicode_lower updates) r else r) (cars s)
      else cars s)"
  by (simp add: updateBase_def update_car_def request_def split: option.splits)

lemma map_if_unchanged:
  "(\<And>r. f (g r) = f r) \<Longrightarrow> map f (map (\<lambda>r. if P r then g r else r) xs) = map f xs"
  by (induction xs) auto

lemma updateCar_keeps_column:
  assumes "\<And>r. f (apply_update (baseCarUpdatePayload unicode_lower updates) r) = f r"
  shows "map f (cars (snd (updateCar unicode_lower fails handleSupabaseError s carId updates))) = map f (cars s)"
  using assms by (simp add: updateCar_cars updateBase_cars map_if_unchanged)

lemma updateCar_sets_column:
  assumes "\<And>r. f (apply_update (baseCarUpdatePayload unicode_lower updates) r) = v"
    and "fails (Update Cars) = None" and "0 < keys_length (baseCarUpdatePayload unicode_lower updates)"
  shows "map f (cars (snd (updateCar unicode_lower fails handleSupabaseError s carId updates))) =
         map (\<lambda>r. if c_id r = carId then v else f r) (cars s)"
  using assms by (simp add: updateCar_cars updateBase_cars) 

lemma has_key_positive:
  "cu_description p \<noteq> NoKey \<or> cu_short_description p \<noteq> NoKey \<or> cu_available p \<noteq> NoKey \<or>
   cu_featured p \<noteq> NoKey \<or> cu_hidden p \<noteq> NoKey \<Longrightarrow> 0 < keys_length p"
  by (auto simp: keys_length_def has_key_def)

text \<open>
  C3, as the code has it. After \<^verbatim>\<open>updateCar\<close>, whatever the store answers: a nullable
  root field (description, short_description, available, featured, hidden) that the
  payload leaves out or gives as \<^verbatim>\<open>null\<close> is unchanged in every stored car (the source
  turns \<^verbatim>\<open>null\<close> into \<^verbatim>\<open>undefined\<close>, which the request body does not carry); name and
  slug are unchanged when the payload has no name, the category when it has no
  category. When the update call succeeds, a nullable field given with a value holds
  that value in the car updated and is unchanged in every other car.
\<close>

theorem updateCar_root_fields:
  "((u_description updates = Undefined \<or> u_description updates = Null) \<longrightarrow>
      map c_description (cars (snd (updateCar unicode_lower fails handleSupabaseError s carId updates))) = map c_description (cars s)) \<and>
   ((u_short_description updates = Undefined \<or> u_short_description updates = Null) \<longrightarrow>
      map c_short_description (cars (snd (updateCar unicode_lower fails handleSupabaseError s carId updates))) =
      map c_short_description (cars s)) \<and>
   ((u_available updates = Undefined \<or> u_available updates = Null) \<longrightarrow>
      map c_available (cars (snd (updateCar unicode_lower fails handleSupabaseError s carId updates))) = map c_available (cars s)) \<and>
   ((u_featured updates = Undefined \<or> u_featured updates = Null) \<longrightarrow>
      map c_featured (cars (snd (updateCar unicode_lower fails handleSupabaseError s carId updates))) = map c_featured (cars s)) \<and>
   ((u_hidden updates = Undefined \<or> u_hidden updates = Null) \<longrightarrow>
      map c_hidden (cars (snd (updateCar unicode_lower fails handleSupabaseError s carId updates))) = map c_hidden (cars s)) \<and>
   (u_name updates = None \<longrightarrow>
      map c_name (cars (snd (updateCar unicode_lower fails handleSupabaseError s carId updates))) = map c_name (cars s) \<and>
      map c_slug (cars (snd (updateCar unicode_lower fails handleSupabaseError s carId updates))) = map c_slug (cars s)) \<and>
   (u_category updates = None \<longrightarrow>
      map c_category (cars (snd (updateCar unicode_lower fails handleSupabaseError s carId updates))) = map c_category (cars s)) \<and>
   (fails (Update Cars) = None \<longrightarrow>
      (\<forall>v. u_description updates = Val v \<longrightarrow>
         map c_description (cars (snd (updateCar unicode_lower fails handleSupabaseError s carId updates))) =
         map (\<lambda>r. if c_id r = carId then Some v else c_description r) (cars s)) \<and>
      (\<forall>v. u_short_description updates = Val v \<longrightarrow>
         map c_short_description (cars (snd (updateCar unicode_lower fails handleSupabaseError s carId updates))) =
         map (\<lambda>r. if c_id r = carId then Some v else c_short_description r) (cars s)) \<and>
      (\<forall>v. u_available updates = Val v \<longrightarrow>
         map c_available (cars (snd (updateCar unicode_lower fails handleSupabaseError s carId updates))) =
         map (\<lambda>r. if c_id r = carId then Some v else c_available r) (cars s)) \<and>
      (\<forall>v. u_featured updates = Val v \<longrightarrow>
         map c_featured (cars (snd (updateCar unicode_lower fails handleSupabaseError s carId updates))) =
         map (\<lambda>r. if c_id r = carId then Some v else c_featured r) (cars s)) \<and>
      (\<forall>v. u_hidden updates = Val v \<longrightarrow>
         map c_hidden (cars (snd (updateCar unicode_lower fails handleSupabaseError s carId updates))) =
         map (\<lambda>r. if c_id r = carId then Some v else c_hidden r) (cars s)))"
proof -
  let ?p = "baseCarUpdatePayload unicode_lower updates"
  let ?after = "cars (snd (updateCar unicode_lower fails handleSupabaseError s carId updates))"
  have keep: "map f ?after = map f (cars s)" if "\<And>r. f (apply_update ?p r) = f r" for f :: "CarBase \<Rightarrow> 'b"
    using that by (rule updateCar_keeps_column)
  have put: "map f ?after = map (\<lambda>r. if c_id r = carId then v else f r) (cars s)"
    if "\<And>r. f (apply_update ?p r) = v" "fails (Update Cars) = None" "0 < keys_length ?p"
    for f :: "CarBase \<Rightarrow> 'b" and v
    using that by (rule updateCar_sets_column)
  have d: "map c_description ?after = map c_description (cars s)"
    if "u_description updates = Undefined \<or> u_description updates = Null"
    using that
    by (intro keep) (auto simp: apply_update_def baseCarUpdatePayload_def assign_nullable_def set_nullable_column_def)
  have sd: "map c_short_description ?after = map c_short_description (cars s)"
    if "u_short_description updates = Undefined \<or> u_short_description updates = Null"
    using that
    by (intro keep) (auto simp: apply_update_def baseCarUpdatePayload_def assign_nullable_def set_nullable_column_def)
  have av: "map c_available ?after = map c_available (cars s)"
    if "u_available updates = Undefined \<or> u_available updates = Null"
    using that
    by (intro keep) (auto simp: apply_update_def baseCarUpdatePayload_def assign_nullable_def set_nullable_column_def)
  have fe: "map c_featured ?after = map c_featured (cars s)"
    if "u_featured updates = Undefined \<or> u_featured updates = Null"
    using that
    by (intro keep) (auto simp: apply_update_def baseCarUpdatePayload_def assign_nullable_def set_nullable_column_def)
  have hi: "map c_hidden ?after = map c_hidden (cars s)"
    if "u_hidden updates = Undefined \<or> u_hidden updates = Null"
    using that
    by (intro keep) (auto simp: apply_update_def baseCarUpdatePayload_def assign_nullable_def set_nullable_column_def)
  have na: "map c_name ?after = map c_name (cars s) \<and> map c_slug ?after = map c_slug (cars s)"
    if "u_name updates = None"
    using that keep[of c_name] keep[of c_slug]
    by (simp add: apply_update_def baseCarUpdatePayload_def assign_defined_def set_column_def)
  have ca: "map c_category ?after = map c_category (cars s)"
    if "u_category updates = None"
    using that
    by (intro keep) (simp add: apply_update_def baseCarUpdatePayload_def assign_defined_def set_nullable_column_def)
  have vd: "map c_description ?after = map (\<lambda>r. if c_id r = carId then Some v else c_description r) (cars s)"
    if "fails (Update Cars) = None" "u_description updates = Val v" for v
    using that
    by (intro put has_key_positive)
      (simp_all add: apply_update_def baseCarUpdatePayload_def assign_nullable_def set_nullable_column_def)
  have vsd: "map c_short_description ?after =
      map (\<lambda>r. if c_id r = carId then Some v else c_short_description r) (cars s)"
    if "fails (Update Cars) = None" "u_short_description updates = Val v" for v
    using that
    by (intro put has_key_positive)
      (simp_all add: apply_update_def baseCarUpdatePayload_def assign_nullable_def set_nullable_column_def)
  have vav: "map c_available ?after = map (\<lambda>r. if c_id r = carId then Some v else c_available r) (cars s)"
    if "fails (Update Cars) = None" "u_available updates = Val v" for v
    using that
    by (intro put has_key_positive)
      (simp_all add: apply_update_def baseCarUpdatePayload_def assign_nullable_def set_nullable_column_def)
  have vfe: "map c_featured ?after = map (\<lambda>r. if c_id r = carId then Some v else c_featured r) (cars s)"
    if "fails (Update Cars) = None" "u_featured updates = Val v" for v
    using that
    by (intro put has_key_positive)
      (simp_all add: apply_update_def baseCarUpdatePayload_def assign_nullable_def set_nullable_column_def)
  have vhi: "map c_hidden ?after = map (\<lambda>r. if c_id r = carId then Some v else c_hidden r) (cars s)"
    if "fails (Update Cars) = None" "u_hidden updates = Val v" for v
    using that
    by (intro put has_key_positive)
      (simp_all add: apply_update_def baseCarUpdatePayload_def assign_nullable_def set_nullable_column_def)
  from d sd av fe hi na ca vd vsd vav vfe vhi show ?thesis by blast
qed

theorem updateCar_root_fields_witness:
  "u_description (no_updates\<lparr>u_description := Null, u_hidden := Val True\<rparr>) = Null \<and>
   u_hidden (no_updates\<lparr>u_description := Null, u_hidden := Val True\<rparr>) = Val True \<and>
   map c_description
     (cars (snd (updateCar ascii_lower (failing []) message one_car_store ''1''
        (no_updates\<lparr>u_description := Null, u_hidden := Val True\<rparr>)))) = [Some ''A fast car''] \<and>
   map c_hidden
     (cars (snd (updateCar ascii_lower (failing []) message one_car_store ''1''
        (no_updates\<lparr>u_description := Null, u_hidden := Val True\<rparr>)))) = [Some True]"
proof -
  have f: "failing [] (Update Cars) = None" by (simp add: failing_def)
  have c: "map c_description (cars one_car_store) = [Some ''A fast car'']"
    "map (\<lambda>r. if c_id r = ''1'' then Some True else c_hidden r) (cars one_car_store) = [Some True]"
    by (simp_all add: one_car_store_def)
  from updateCar_root_fields[where updates = "no_updates\<lparr>u_description := Null, u_hidden := Val True\<rparr>"
      and fails = "failing []" and handleSupabaseError = message and s = one_car_store
      and carId = "''1''" and unicode_lower = ascii_lower] f c
  show ?thesis by simp
qed

text \<open>
  The description of car \<^verbatim>\<open>1\<close> is there before and after an update with
  \<^verbatim>\<open>description: null\<close>: it has not been cleared.
\<close>

theorem updateCar_null_keeps_description:
  "map c_description (cars one_car_store) = [Some ''A fast car''] \<and>
   map c_description
     (cars (snd (updateCar ascii_lower (failing []) message one_car_store ''1'' (no_updates\<lparr>u_description := Null\<rparr>)))) =
   [Some ''A fast car'']"
proof -
  have "c_description (apply_update (baseCarUpdatePayload ascii_lower (no_updates\<lparr>u_description := Null\<rparr>)) r) =
        c_description r" for r
    by (simp add: apply_update_def baseCarUpdatePayload_def assign_nullable_def set_nullable_column_def)
  from updateCar_keeps_column[where f = c_description and updates = "no_updates\<lparr>u_description := Null\<rparr>"
      and unicode_lower = ascii_lower, OF this]
  show ?thesis by (simp add: one_car_store_def)
qed

lemma updateBase_fields [simp]:
  "car_images (snd (updateBase unicode_lower fails carId updates s)) = car_images s"
  "console (snd (updateBase unicode_lower fails carId updates s)) = console s"
  by (simp_all add: updateBase_def update_car_def request_def split: option.splits)

lemma updateBase_fst:
  "fst (updateBase unicode_lower fails carId updates s) =
     (if 0 < keys_length (baseCarUpdatePayload unicode_lower updates) then fails (Update Cars) else None)"
  by (simp add: updateBase_def update_car_def request_def split: option.splits)

lemma updatePricing_fst:
  "(fst (updatePricing fails carId updates s) = None) =
     (u_pricing updates = None \<or> fails (Upsert CarPricingT) = None)"
  by (auto simp: updatePricing_def upsert_pricing_def request_def split: option.splits)

lemma updateCar_after_related:
  assumes "fst (updateBase unicode_lower fails carId updates s) = None"
  shows "car_images (snd (updateCar unicode_lower fails handleSupabaseError s carId updates)) =
           car_images (snd (updateRelated fails carId updates (snd (updateBase unicode_lower fails carId updates s))))"
    and "set (trace (snd (updateRelated fails carId updates (snd (updateBase unicode_lower fails carId updates s)))))
           \<subseteq> set (trace (snd (updateCar unicode_lower fails handleSupabaseError s carId updates)))"
    and "set (console (snd (updateRelated fails carId updates (snd (updateBase unicode_lower fails carId updates s)))))
           \<subseteq> set (console (snd (updateCar unicode_lower fails handleSupabaseError s carId updates)))"
  using assms getCarById_grows
  by (auto simp: updateCar_def split_beta split: option.splits sum.splits)

lemma updateRelated_after_images:
  assumes "fst (updatePricing fails carId updates s) = None"
    and "fst (updateImages fails carId updates (snd (updatePricing fails carId updates s))) = None"
  shows "car_images (snd (updateRelated fails carId updates s)) =
           car_images (snd (updateImages fails carId updates (snd (updatePricing fails carId updates s))))"
    and "set (trace (snd (updateImages fails carId updates (snd (updatePricing fails carId updates s)))))
           \<subseteq> set (trace (snd (updateRelated fails carId updates s)))"
    and "set (console (snd (updateImages fails carId updates (snd (updatePricing fails carId updates s)))))
           \<subseteq> set (console (snd (updateRelated fails carId updates s)))"
  using assms
  by (auto simp: updateRelated_def and_then_snd and_then_fst
      intro: subsetD[OF updateFeatures_grows(1)] subsetD[OF updateFeatures_grows(2)]
        subsetD[OF updateSpecifications_grows(1)] subsetD[OF updateSpecifications_grows(2)])

lemma truthy_paths_Nil:
  "\<forall>i \<in> set imgs. truthy (path i) \<Longrightarrow> (truthy_paths imgs = []) = (imgs = [])"
  by (cases imgs) (auto simp: truthy_paths_def)

lemma removeImages_run:
  assumes "fails (Delete CarImages) = None" and "\<forall>i \<in> set toDelete. truthy (path i)"
  shows "fst (removeImages fails toDelete s) = None"
    and "car_images (snd (removeImages fails toDelete s)) =
           filter (\<lambda>i. i_id i \<notin> set (map i_id toDelete)) (car_images s)"
    and "toDelete \<noteq> [] \<Longrightarrow>
           StorageRemove (truthy_paths toDelete) \<in> set (trace (snd (removeImages fails toDelete s)))"
    and "toDelete \<noteq> [] \<Longrightarrow> fails (StorageRemove (truthy_paths toDelete)) = Some e \<Longrightarrow>
           [Str ''Error deleting images from storage:'', Err (Some e)]
             \<in> set (console (snd (removeImages fails toDelete s)))"
  using assms truthy_paths_Nil[OF assms(2)]
  by (auto simp: removeImages_def delete_images_in_def storage_remove_def request_def
      console_error_def Let_def split_beta split: option.splits)

lemma updateImages_empty:
  assumes "u_images updates = Some []"
    and "fails (Select CarImages ''id, path'') = None"
    and "fails (Delete CarImages) = None"
  shows "updateImages fails carId updates s =
           removeImages fails
             (filter (\<lambda>i. i_car_id i = carId \<and> truthy (path i)) (car_images s))
             (snd (select_images fails carId s))"
  using assms
  by (auto simp: updateImages_def select_images_def imagesToDelete_def request_def split_beta
      prod_eq_iff split: option.splits)

lemma updateCar_empty_images:
  assumes "u_images updates = Some []"
    and "keys_length (baseCarUpdatePayload unicode_lower updates) = 0 \<or> fails (Update Cars) = None"
    and "u_pricing updates = None \<or> fails (Upsert CarPricingT) = None"
    and "fails (Select CarImages ''id, path'') = None"
    and "fails (Delete CarImages) = None"
  shows "\<exists>s3. updateImages fails carId updates
                (snd (updatePricing fails carId updates (snd (updateBase unicode_lower fails carId updates s)))) =
              removeImages fails
                (filter (\<lambda>i. i_car_id i = carId \<and> truthy (path i)) (car_images s)) s3 \<and>
          car_images s3 = car_images s \<and>
          car_images (snd (updateCar unicode_lower fails handleSupabaseError s carId updates)) =
            car_images (snd (removeImages fails
                (filter (\<lambda>i. i_car_id i = carId \<and> truthy (path i)) (car_images s)) s3)) \<and>
          set (trace (snd (removeImages fails
                (filter (\<lambda>i. i_car_id i = carId \<and> truthy (path i)) (car_images s)) s3)))
            \<subseteq> set (trace (snd (updateCar unicode_lower fails handleSupabaseError s carId updates))) \<and>
          set (console (snd (removeImages fails
                (filter (\<lambda>i. i_car_id i = carId \<and> truthy (path i)) (car_images s)) s3)))
            \<subseteq> set (console (snd (updateCar unicode_lower fails handleSupabaseError s carId updates)))"
proof -
  let ?doomed = "filter (\<lambda>i. i_car_id i = carId \<and> truthy (path i)) (car_images s)"
  let ?s1 = "snd (updateBase unicode_lower fails carId updates s)"
  let ?s2 = "snd (updatePricing fails carId updates ?s1)"
  let ?s3 = "snd (select_images fails carId ?s2)"
  have base: "fst (updateBase unicode_lower fails carId updates s) = None"
    using assms(2) by (auto simp: updateBase_fst)
  have pricing: "fst (updatePricing fails carId updates ?s1) = None"
    using assms(3) by (simp add: updatePricing_fst)
  have same: "car_images ?s2 = car_images s" by simp
  have images: "updateImages fails carId updates ?s2 = removeImages fails ?doomed ?s3"
    by (simp add: updateImages_empty[OF assms(1,4,5)] same)
  have truthy: "\<forall>i \<in> set ?doomed. truthy (path i)" by simp
  have ok: "fst (updateImages fails carId updates ?s2) = None"
    unfolding images
    by (rule removeImages_run(1)[where fails = fails and toDelete = ?doomed, OF assms(5) truthy])
  note rel = updateRelated_after_images[OF pricing ok]
  note car = updateCar_after_related[OF base, where handleSupabaseError = handleSupabaseError]
  have "car_images (snd (updateCar unicode_lower fails handleSupabaseError s carId updates)) =
          car_images (snd (removeImages fails ?doomed ?s3))"
    by (simp add: car(1) rel(1) images)
  moreover have "set (trace (snd (removeImages fails ?doomed ?s3)))
       \<subseteq> set (trace (snd (updateCar unicode_lower fails handleSupabaseError s carId updates)))"
    using rel(2) car(2) by (auto simp: images)
  moreover have "set (console (snd (removeImages fails ?doomed ?s3)))
       \<subseteq> set (console (snd (updateCar unicode_lower fails handleSupabaseError s carId updates)))"
    using rel(3) car(3) by (auto simp: images)
  moreover have "car_images ?s3 = car_images s" by simp
  ultimately show ?thesis using images by blast
qed

lemma one_car_doomed:
  "filter (\<lambda>i. i_car_id i = ''1'' \<and> truthy (path i)) (car_images one_car_store) =
     [\<lparr>url = ''u4'', path = Some ''p4'', is_primary = None, sort_order = Val 2,
        i_id = ''4'', i_car_id = ''1''\<rparr>,
      \<lparr>url = ''u5'', path = Some ''p5'', is_primary = None, sort_order = Val 1,
        i_id = ''5'', i_car_id = ''1''\<rparr>]"
  by (simp add: one_car_store_def truthy_def)

text \<open>
  C4, as the code has it. Let the images patch of \<^verbatim>\<open>updateCar\<close> be the empty sequence, and
  let the root update (if the payload has root fields), the pricing upsert (if the payload
  has a pricing), the fetch of the existing images and the delete on the images table
  not fail. Then the rows removed from the images table are those whose identifier is
  that of an image of the car with a stored (non-empty) path, so no image of the car with
  a stored path is left; when there is such an image, the store is called to remove the
  stored paths from the bucket; and when that call fails, the failure is logged, and the
  rows are removed all the same. An image of the car without a path is not touched.
\<close>

theorem updateCar_empty_images_patch:
  assumes "u_images updates = Some []"
    and "keys_length (baseCarUpdatePayload unicode_lower updates) = 0 \<or> fails (Update Cars) = None"
    and "u_pricing updates = None \<or> fails (Upsert CarPricingT) = None"
    and "fails (Select CarImages ''id, path'') = None"
    and "fails (Delete CarImages) = None"
  shows "car_images (snd (updateCar unicode_lower fails handleSupabaseError s carId updates)) =
           filter (\<lambda>i. i_id i \<notin> set (map i_id
                     (filter (\<lambda>i. i_car_id i = carId \<and> truthy (path i)) (car_images s))))
             (car_images s) \<and>
         (\<forall>i \<in> set (car_images (snd (updateCar unicode_lower fails handleSupabaseError s carId updates))).
            \<not> (i_car_id i = carId \<and> truthy (path i))) \<and>
         (filter (\<lambda>i. i_car_id i = carId \<and> truthy (path i)) (car_images s) \<noteq> [] \<longrightarrow>
            StorageRemove (truthy_paths (filter (\<lambda>i. i_car_id i = carId \<and> truthy (path i)) (car_images s)))
              \<in> set (trace (snd (updateCar unicode_lower fails handleSupabaseError s carId updates))) \<and>
            (\<forall>e. fails (StorageRemove
                   (truthy_paths (filter (\<lambda>i. i_car_id i = carId \<and> truthy (path i)) (car_images s)))) = Some e \<longrightarrow>
               [Str ''Error deleting images from storage:'', Err (Some e)]
                 \<in> set (console (snd (updateCar unicode_lower fails handleSupabaseError s carId updates)))))"
proof -
  let ?doomed = "filter (\<lambda>i. i_car_id i = carId \<and> truthy (path i)) (car_images s)"
  let ?s' = "snd (updateCar unicode_lower fails handleSupabaseError s carId updates)"
  from updateCar_empty_images[OF assms, where carId = carId and s = s
      and handleSupabaseError = handleSupabaseError]
  obtain s3 where before: "car_images s3 = car_images s"
    and rows3: "car_images ?s' = car_images (snd (removeImages fails ?doomed s3))"
    and trace3: "set (trace (snd (removeImages fails ?doomed s3))) \<subseteq> set (trace ?s')"
    and console3: "set (console (snd (removeImages fails ?doomed s3))) \<subseteq> set (console ?s')"
    by blast
  have truthy: "\<forall>i \<in> set ?doomed. truthy (path i)" by simp
  note run = removeImages_run[where fails = fails and toDelete = ?doomed and s = s3,
      OF assms(5) truthy]
  have rows: "car_images ?s' = filter (\<lambda>i. i_id i \<notin> set (map i_id ?doomed)) (car_images s)"
    by (simp add: rows3 run(2) before)
  have gone: "\<forall>i \<in> set (car_images ?s'). \<not> (i_car_id i = carId \<and> truthy (path i))"
    unfolding rows by auto
  have storage: "StorageRemove (truthy_paths ?doomed) \<in> set (trace ?s')" if "?doomed \<noteq> []"
    using run(3)[OF that] trace3 by auto
  have logged: "[Str ''Error deleting images from storage:'', Err (Some e)] \<in> set (console ?s')"
    if "?doomed \<noteq> []" "fails (StorageRemove (truthy_paths ?doomed)) = Some e" for e
    using run(4)[OF that] console3 by auto
  from rows gone storage logged show ?thesis by blast
qed

theorem updateCar_empty_images_patch_witness:
  "u_images (no_updates\<lparr>u_images := Some []\<rparr>) = Some [] \<and>
   map path (car_images (snd (updateCar ascii_lower (failing [StorageRemove [''p4'', ''p5'']]) message one_car_store ''1''
                                (no_updates\<lparr>u_images := Some []\<rparr>)))) = [None] \<and>
   StorageRemove [''p4'', ''p5'']
     \<in> set (trace (snd (updateCar ascii_lower (failing [StorageRemove [''p4'', ''p5'']]) message one_car_store ''1''
                                (no_updates\<lparr>u_images := Some []\<rparr>)))) \<and>
   [Str ''Error deleting images from storage:'', Err (Some (PostgrestError ''boom''))]
     \<in> set (console (snd (updateCar ascii_lower (failing [StorageRemove [''p4'', ''p5'']]) message one_car_store ''1''
                                (no_updates\<lparr>u_images := Some []\<rparr>))))"
proof -
  let ?u = "no_updates\<lparr>u_images := Some []\<rparr>"
  let ?fails = "failing [StorageRemove [''p4'', ''p5'']]"
  have 1: "u_images ?u = Some []" by simp
  have 2: "keys_length (baseCarUpdatePayload ascii_lower ?u) = 0 \<or> ?fails (Update Cars) = None"
    by (simp add: failing_def)
  have 3: "u_pricing ?u = None \<or> ?fails (Upsert CarPricingT) = None"
    by (simp add: failing_def)
  have 4: "?fails (Select CarImages ''id, path'') = None" by (simp add: failing_def)
  have 5: "?fails (Delete CarImages) = None" by (simp add: failing_def)
  have 6: "?fails (StorageRemove [''p4'', ''p5'']) = Some (PostgrestError ''boom'')"
    by (simp add: failing_def)
  have 7: "truthy_paths [\<lparr>url = ''u4'', path = Some ''p4'', is_primary = None, sort_order = Val 2,
        i_id = ''4'', i_car_id = ''1''\<rparr>,
      \<lparr>url = ''u5'', path = Some ''p5'', is_primary = None, sort_order = Val 1,
        i_id = ''5'', i_car_id = ''1''\<rparr>] = [''p4'', ''p5'']"
    by (simp add: truthy_paths_def truthy_def)
  from updateCar_empty_images_patch[OF 1 2 3 4 5, where carId = "''1''" and s = one_car_store and handleSupabaseError = message] 6
  show ?thesis
    unfolding one_car_doomed 7 by (simp add: one_car_store_def)
qed

text \<open>
  Car \<^verbatim>\<open>1\<close> has three images, the first without a path. After an update with the
  images patch \<^verbatim>\<open>[]\<close>, every call succeeding, that image is still in the table.
\<close>

theorem updateCar_empty_images_keeps_pathless_row:
  "map i_id (filter (\<lambda>i. i_car_id i = ''1'') (car_images one_car_store)) = [''3'', ''4'', ''5''] \<and>
   map i_id (car_images (snd (updateCar ascii_lower (failing []) message one_car_store ''1''
                                (no_updates\<lparr>u_images := Some []\<rparr>)))) = [''3'']"
proof -
  let ?u = "no_updates\<lparr>u_images := Some []\<rparr>"
  let ?doomed = "filter (\<lambda>i. i_car_id i = ''1'' \<and> truthy (path i)) (car_images one_car_store)"
  have 1: "u_images ?u = Some []" by simp
  have 2: "keys_length (baseCarUpdatePayload ascii_lower ?u) = 0 \<or> failing [] (Update Cars) = None"
    by (simp add: failing_def)
  have 3: "u_pricing ?u = None \<or> failing [] (Upsert CarPricingT) = None"
    by (simp add: failing_def)
  have 4: "failing [] (Select CarImages ''id, path'') = None" by (simp add: failing_def)
  have 5: "failing [] (Delete CarImages) = None" by (simp add: failing_def)
  from updateCar_empty_images[OF 1 2 3 4 5, where carId = "''1''" and s = one_car_store
      and handleSupabaseError = message]
  obtain s3 where before: "car_images s3 = car_images one_car_store"
    and rows3: "car_images (snd (updateCar ascii_lower (failing []) message one_car_store ''1'' ?u)) =
                car_images (snd (removeImages (failing []) ?doomed s3))"
    by blast
  have truthy: "\<forall>i \<in> set ?doomed. truthy (path i)" by simp
  have "car_images (snd (updateCar ascii_lower (failing []) message one_car_store ''1'' ?u)) =
        filter (\<lambda>i. i_id i \<notin> set (map i_id ?doomed)) (car_images one_car_store)"
    unfolding rows3
    using removeImages_run(2)[where fails = "failing []" and toDelete = ?doomed and s = s3,
        OF 5 truthy]
    by (simp add: before)
  then show ?thesis
    unfolding one_car_doomed by (simp add: one_car_store_def)
qed

section \<open>Properties of the aggregate read\<close>

lemma selected_trace [simp]: "selected (s\<lparr>trace := t\<rparr>) = selected s"
  by (rule ext) (simp add: selected_def)

lemma join_trace [simp]: "join (s\<lparr>trace := t\<rparr>) = join s"
  by (rule ext) (simp add: join_def)


lemma join_fields [simp]:
  "j_car (join s r) = r"
  "j_images (join s r) = map (selected s) (filter (\<lambda>i. i_car_id i = c_id r) (car_images s))"
  by (simp_all add: join_def Let_def)




lemma assembleCar_join [simp]:
  "a_images (assembleCar (join s r)) =
     sortImages (map (selected s) (filter (\<lambda>i. i_car_id i = c_id r) (car_images s)))"
  "c_id (a_base (assembleCar (join s r))) = c_id r"
  by (simp_all add: assembleCar_def)


lemma sortImages_otherwise:
  "imgs = [] \<or> sort_order (hd imgs) = Undefined \<Longrightarrow> sortImages imgs = imgs"
  by (cases imgs) (auto simp: sortImages_def)





section \<open>Properties of the list projections\<close>

lemma set_order_desc [simp]: "set (order_desc f xs) = set xs"
  by (simp add: order_desc_def)

lemma sorted_order_desc: "sorted_wrt (\<lambda>a b. f b \<le> f a) (order_desc f xs)"
proof -
  have "sorted (map f (sort_key f (rev xs)))" by (rule sorted_sort_key)
  then have "sorted_wrt (\<lambda>a b. f a \<le> f b) (sort_key f (rev xs))"
    by (simp add: sorted_wrt_map)
  then show ?thesis
    by (simp add: order_desc_def sorted_wrt_rev)
qed

lemma order_desc_stable:
  "filter (\<lambda>y. f y = k) (order_desc f xs) = filter (\<lambda>y. f y = k) xs"
proof -
  have "filter (\<lambda>y. f y = k) (sort_key f (rev xs)) = filter (\<lambda>y. f y = k) (rev xs)"
    by (rule sort_key_stable)
  then have "rev (filter (\<lambda>y. f y = k) (sort_key f (rev xs))) = rev (filter (\<lambda>y. f y = k) (rev xs))"
    by simp
  then show ?thesis
    by (simp add: order_desc_def rev_filter)
qed

lemma bool_rank_inj: "(bool_rank a = bool_rank b) = (a = b)"
  by (auto simp: bool_rank_def split: option.splits bool.splits)

lemma visible_query_set:
  "set (visible_query rows) = {r \<in> set rows. c_available r = Some True \<and> c_hidden r = Some False}"
  by (auto simp: visible_query_def)

lemma visible_query_featured_first:
  "sorted_wrt (\<lambda>a b. \<not> (c_featured a = Some False \<and> c_featured b = Some True)) (visible_query rows)"
proof -
  have "sorted_wrt (\<lambda>a b. bool_rank (c_featured b) \<le> bool_rank (c_featured a)) (visible_query rows)"
    unfolding visible_query_def by (rule sorted_order_desc)
  then show ?thesis
    by (rule sorted_wrt_mono_rel[rotated]) (auto simp: bool_rank_def)
qed

lemma visible_query_newest_first:
  "sorted_wrt (\<lambda>a b. c_created_at b \<le> c_created_at a)
     (filter (\<lambda>r. c_featured r = f) (visible_query rows))"
proof -
  let ?inner = "order_desc c_created_at
         (filter (\<lambda>r. c_hidden r = Some False) (filter (\<lambda>r. c_available r = Some True) rows))"
  have "filter (\<lambda>r. bool_rank (c_featured r) = bool_rank f) (visible_query rows) =
        filter (\<lambda>r. bool_rank (c_featured r) = bool_rank f) ?inner"
    unfolding visible_query_def by (rule order_desc_stable)
  then have e: "filter (\<lambda>r. c_featured r = f) (visible_query rows) = filter (\<lambda>r. c_featured r = f) ?inner"
    by (simp add: bool_rank_inj)
  have "sorted_wrt (\<lambda>a b. c_created_at b \<le> c_created_at a) ?inner"
    by (rule sorted_order_desc)
  then show ?thesis
    unfolding e by (rule sorted_wrt_filter)
qed

lemma getVisibleCarsForFleet_Inr:
  assumes "getVisibleCarsForFleet fails handleSupabaseError s = (Inr out, s')"
  shows "out = map (\<lambda>r. toFleetCar (join s r)) (visible_query (cars s))"
  using assms
  by (auto simp: getVisibleCarsForFleet_def select_cars_def request_def split: option.splits)

lemma toFleetCar_fields [simp]:
  "fl_id (toFleetCar (join s r)) = c_id r"
  "isFeatured (toFleetCar (join s r)) = c_featured r"
  by (simp_all add: toFleetCar_def)

lemma getVisibleCarsForFleet_ok:
  "fails (Select Cars cols_fleet) = None \<Longrightarrow>
   fst (getVisibleCarsForFleet fails handleSupabaseError s) = Inr (map (\<lambda>r. toFleetCar (join s r)) (visible_query (cars s)))"
  by (simp add: getVisibleCarsForFleet_def select_cars_def request_def)

lemma fleet_visible:
  "map c_id (visible_query (cars fleet_store)) = [''d'', ''b'', ''a'']"
  by (simp add: visible_query_def order_desc_def bool_rank_def fleet_store_def fleet_car_def
      empty_store_def)

text \<open>
  C8. When \<^verbatim>\<open>getVisibleCarsForFleet\<close> returns a list, the list is the projection of
  exactly the stored cars with \<^verbatim>\<open>available = true\<close> and \<^verbatim>\<open>hidden = false\<close>: every
  entry comes from such a car. No entry with \<^verbatim>\<open>isFeatured = false\<close> stands before an
  entry with \<^verbatim>\<open>isFeatured = true\<close>, and the cars of one \<^verbatim>\<open>featured\<close> value are in
  descending order of creation time.
\<close>

theorem getVisibleCarsForFleet_filter_order:
  assumes "getVisibleCarsForFleet fails handleSupabaseError s = (Inr out, s')"
  shows "\<exists>rows. out = map (\<lambda>r. toFleetCar (join s r)) rows \<and>
     set rows = {r \<in> set (cars s). c_available r = Some True \<and> c_hidden r = Some False} \<and>
     (\<forall>x \<in> set out. \<exists>r \<in> set (cars s).
        fl_id x = c_id r \<and> isFeatured x = c_featured r \<and>
        c_available r = Some True \<and> c_hidden r = Some False) \<and>
     sorted_wrt (\<lambda>a b. \<not> (isFeatured a = Some False \<and> isFeatured b = Some True)) out \<and>
     (\<forall>f. sorted_wrt (\<lambda>a b. c_created_at b \<le> c_created_at a) (filter (\<lambda>r. c_featured r = f) rows))"
proof -
  let ?rows = "visible_query (cars s)"
  have out: "out = map (\<lambda>r. toFleetCar (join s r)) ?rows"
    using assms by (rule getVisibleCarsForFleet_Inr)
  have rows: "set ?rows = {r \<in> set (cars s). c_available r = Some True \<and> c_hidden r = Some False}"
    by (rule visible_query_set)
  have each: "\<forall>x \<in> set out. \<exists>r \<in> set (cars s).
        fl_id x = c_id r \<and> isFeatured x = c_featured r \<and>
        c_available r = Some True \<and> c_hidden r = Some False"
    unfolding out using rows by auto
  have featured: "sorted_wrt (\<lambda>a b. \<not> (isFeatured a = Some False \<and> isFeatured b = Some True)) out"
    unfolding out using visible_query_featured_first[of "cars s"]
    by (simp add: sorted_wrt_map)
  have newest: "\<forall>f. sorted_wrt (\<lambda>a b. c_created_at b \<le> c_created_at a)
                       (filter (\<lambda>r. c_featured r = f) ?rows)"
    using visible_query_newest_first by blast
  from out rows each featured newest show ?thesis by blast
qed

theorem getVisibleCarsForFleet_filter_order_witness:
  "map_sum id (map fl_id) (fst (getVisibleCarsForFleet (failing []) message fleet_store)) =
     Inr [''d'', ''b'', ''a''] \<and>
   sorted_wrt (\<lambda>a b. \<not> (isFeatured a = Some False \<and> isFeatured b = Some True))
     (projr (fst (getVisibleCarsForFleet (failing []) message fleet_store)))"
proof -
  let ?out = "map (\<lambda>r. toFleetCar (join fleet_store r)) (visible_query (cars fleet_store))"
  have f: "failing [] (Select Cars cols_fleet) = None" by (simp add: failing_def)
  have g: "fst (getVisibleCarsForFleet (failing []) message fleet_store) = Inr ?out"
    using f by (rule getVisibleCarsForFleet_ok)
  then have run: "getVisibleCarsForFleet (failing []) message fleet_store =
      (Inr ?out, snd (getVisibleCarsForFleet (failing []) message fleet_store))"
    by (simp add: prod_eq_iff)
  have ids: "map fl_id ?out = [''d'', ''b'', ''a'']"
    using fleet_visible by (simp add: comp_def)
  from getVisibleCarsForFleet_filter_order[OF run] ids g show ?thesis by auto
qed

lemma set_related_query:
  "r \<in> set (related_query cat carId limit rows) \<Longrightarrow> c_id r \<noteq> carId"
  by (auto simp: related_query_def dest: in_set_takeD)

lemma length_related_query:
  "length (related_query cat carId limit rows) \<le> limit"
  by (simp add: related_query_def)

lemma toRelatedCar_fields [simp]:
  "r_id (toRelatedCar (join s r)) = c_id r"
  by (simp add: toRelatedCar_def)

lemma maybeSingle_cases:
  "maybeSingle (Inr rows) = Inr x \<Longrightarrow> (rows = [] \<and> x = None) \<or> (\<exists>r. rows = [r] \<and> x = Some r)"
  by (auto simp: maybeSingle_def split: list.splits)

lemma getRelatedCars_Inr:
  assumes "getRelatedCars fails handleSupabaseError s carId limit = (Inr out, s')"
  shows "out = [] \<or>
     (\<exists>cat. out = map (\<lambda>r. toRelatedCar (join s r))
                    (related_query cat carId (case limit of None \<Rightarrow> 3 | Some n \<Rightarrow> n) (cars s)))"
  using assms
  by (auto simp: getRelatedCars_def select_cars_def request_def Let_def comp_def
      split: option.splits sum.splits if_splits)

lemma getRelatedCars_not_found:
  assumes "fails (Select Cars ''category'') = None"
    and "filter (\<lambda>r. c_id r = carId) (cars s) = []"
  shows "fst (getRelatedCars fails handleSupabaseError s carId limit) = Inr []"
  using assms
  by (simp add: getRelatedCars_def select_cars_def request_def Let_def maybeSingle_def)

lemma getRelatedCars_no_category:
  assumes "fails (Select Cars ''category'') = None"
    and "filter (\<lambda>r. c_id r = carId) (cars s) = [r]"
    and "c_category r = None \<or> c_category r = Some []"
  shows "fst (getRelatedCars fails handleSupabaseError s carId limit) = Inr []"
  using assms
  by (auto simp: getRelatedCars_def select_cars_def request_def Let_def maybeSingle_def)

lemma getRelatedCars_found:
  assumes "fails (Select Cars ''category'') = None"
    and "fails (Select Cars cols_related) = None"
    and "filter (\<lambda>r. c_id r = carId) (cars s) = [r]"
    and "c_category r = Some cat" and "cat \<noteq> []"
  shows "fst (getRelatedCars fails handleSupabaseError s carId limit) =
     Inr (map (\<lambda>r. toRelatedCar (join s r))
            (related_query cat carId (case limit of None \<Rightarrow> 3 | Some n \<Rightarrow> n) (cars s)))"
  using assms
  by (simp add: getRelatedCars_def select_cars_def request_def Let_def maybeSingle_def)

lemma fleet_related:
  "map c_id (related_query ''suv'' ''b'' 3 (cars fleet_store)) = [''a'', ''d'']"
  by (simp add: related_query_def fleet_store_def fleet_car_def empty_store_def)

text \<open>
  C9. Whenever \<^verbatim>\<open>getRelatedCars\<close> returns a list, no entry has the identifier of the
  given car, and the list has at most \<open>limit\<close> entries (3 when the caller gives no
  limit). When the store answers the category lookup, and no car has the given
  identifier, or the one car that has it has no category (\<^verbatim>\<open>null\<close> or the empty string),
  the result is the empty list and not an error.
\<close>

theorem getRelatedCars_excludes_limits:
  "(\<forall>out s'. getRelatedCars fails handleSupabaseError s carId limit = (Inr out, s') \<longrightarrow>
      (\<forall>x \<in> set out. r_id x \<noteq> carId) \<and>
      length out \<le> (case limit of None \<Rightarrow> 3 | Some n \<Rightarrow> n)) \<and>
   (fails (Select Cars ''category'') = None \<longrightarrow>
      (filter (\<lambda>r. c_id r = carId) (cars s) = [] \<longrightarrow>
         fst (getRelatedCars fails handleSupabaseError s carId limit) = Inr []) \<and>
      (\<forall>r. filter (\<lambda>r. c_id r = carId) (cars s) = [r] \<and>
           (c_category r = None \<or> c_category r = Some []) \<longrightarrow>
         fst (getRelatedCars fails handleSupabaseError s carId limit) = Inr []))"
proof -
  have a: "(\<forall>x \<in> set out. r_id x \<noteq> carId) \<and> length out \<le> (case limit of None \<Rightarrow> 3 | Some n \<Rightarrow> n)"
    if "getRelatedCars fails handleSupabaseError s carId limit = (Inr out, s')" for out s'
  proof -
    let ?n = "case limit of None \<Rightarrow> 3 | Some n \<Rightarrow> n"
    from getRelatedCars_Inr[OF that] consider "out = []"
      | cat where "out = map (\<lambda>r. toRelatedCar (join s r)) (related_query cat carId ?n (cars s))"
      by blast
    then show ?thesis
    proof cases
      case 1
      then show ?thesis by simp
    next
      case 2
      have "\<forall>r \<in> set (related_query cat carId ?n (cars s)). c_id r \<noteq> carId"
        using set_related_query by blast
      then show ?thesis
        unfolding 2 by (simp add: length_related_query)
    qed
  qed
  have b: "fst (getRelatedCars fails handleSupabaseError s carId limit) = Inr []"
    if "fails (Select Cars ''category'') = None" "filter (\<lambda>r. c_id r = carId) (cars s) = []"
    using that by (rule getRelatedCars_not_found)
  have c: "fst (getRelatedCars fails handleSupabaseError s carId limit) = Inr []"
    if "fails (Select Cars ''category'') = None" "filter (\<lambda>r. c_id r = carId) (cars s) = [r]"
      "c_category r = None \<or> c_category r = Some []" for r
    using that by (rule getRelatedCars_no_category)
  from a b c show ?thesis by blast
qed

theorem getRelatedCars_excludes_limits_witness:
  "map_sum id (map r_id) (fst (getRelatedCars (failing []) message fleet_store ''b'' None)) =
     Inr [''a'', ''d''] \<and>
   filter (\<lambda>r. c_id r = ''z'') (cars fleet_store) = [] \<and>
   fst (getRelatedCars (failing []) message fleet_store ''z'' None) = Inr []"
proof -
  let ?out = "map (\<lambda>r. toRelatedCar (join fleet_store r)) (related_query ''suv'' ''b'' 3 (cars fleet_store))"
  have f: "failing [] (Select Cars ''category'') = None" "failing [] (Select Cars cols_related) = None"
    by (simp_all add: failing_def)
  have b: "filter (\<lambda>r. c_id r = ''b'') (cars fleet_store) =
             [fleet_car ''b'' (Some True) (Some True) (Some False) 1]"
    "c_category (fleet_car ''b'' (Some True) (Some True) (Some False) 1) = Some ''suv''"
    by (simp_all add: fleet_store_def fleet_car_def empty_store_def)
  have z: "filter (\<lambda>r. c_id r = ''z'') (cars fleet_store) = []"
    by (simp add: fleet_store_def fleet_car_def empty_store_def)
  have g: "fst (getRelatedCars (failing []) message fleet_store ''b'' None) = Inr ?out"
    using getRelatedCars_found[where fails = "failing []" and s = fleet_store and carId = "''b''"
        and limit = None and handleSupabaseError = message, OF f b]
    by simp
  have ids: "map r_id ?out = [''a'', ''d'']"
    using fleet_related by (simp add: comp_def)
  from getRelatedCars_excludes_limits[of "failing []" message fleet_store "''z''" None] f(1) z g ids
  show ?thesis by simp
qed

end
